theory Spec2Isabelle
  imports Main "HOL-Library.Sublist"
begin

section \<open>Shapefile ingestion into PostGIS: a shallow embedding\<close>

text \<open>
  The development follows the two Python modules of the repository:
  \<^verbatim>\<open>ingestion_from_shp.py\<close> (the batch path) and \<^verbatim>\<open>utils_db.py\<close> (the upload path).
  Python strings are modelled as \<^typ>\<open>string\<close>, one \<^typ>\<open>char\<close> per code point, which
  covers the code points below 256 (ASCII and Latin-1); \<^const>\<open>length\<close> then counts
  code points as Python's \<^verbatim>\<open>len\<close> and slicing do.
\<close>

subsection \<open>Python string primitives\<close>

text \<open>\<^verbatim>\<open>str.lower\<close> on the code points below 256: A-Z and the Latin-1 capitals
  (U+00C0 to U+00DE without the multiplication sign U+00D7) move up by 32.\<close>

definition lower_char :: "char \<Rightarrow> char" where
  "lower_char c =
     (let n = (of_char c :: nat)
      in if (65 \<le> n \<and> n \<le> 90) \<or> (192 \<le> n \<and> n \<le> 222 \<and> n \<noteq> 215)
         then char_of (n + 32) else c)"

definition py_lower :: "string \<Rightarrow> string" where
  "py_lower s = map lower_char s"

text \<open>\<^verbatim>\<open>re.sub(r"[C]+", rep, s)\<close> for a character class \<open>C\<close> given as a predicate:
  every maximal run of characters of the class is replaced by \<open>rep\<close>.\<close>

function re_sub_plus :: "(char \<Rightarrow> bool) \<Rightarrow> string \<Rightarrow> string \<Rightarrow> string" where
  "re_sub_plus C rep [] = []"
| "re_sub_plus C rep (c # cs) =
     (if C c then rep @ re_sub_plus C rep (dropWhile C cs)
      else c # re_sub_plus C rep cs)"
  by pat_completeness auto
termination
  by (relation "measure (\<lambda>(C, rep, s). length s)")
     (auto simp: length_dropWhile_le less_Suc_eq_le)

text \<open>\<^verbatim>\<open>s.strip(chars)\<close> with the set of characters given as a predicate.\<close>

definition py_strip :: "(char \<Rightarrow> bool) \<Rightarrow> string \<Rightarrow> string" where
  "py_strip C s = rev (dropWhile C (rev (dropWhile C s)))"

subsection \<open>The scalar identifier normaliser (\<^verbatim>\<open>slugify\<close>)\<close>

definition PG_NAME_MAXLEN :: nat where
  "PG_NAME_MAXLEN = 63"

text \<open>The character class \<^verbatim>\<open>[a-z0-9_]\<close>.\<close>

definition ident_char :: "char \<Rightarrow> bool" where
  "ident_char c = (c \<in> set ''abcdefghijklmnopqrstuvwxyz0123456789_'')"

definition is_underscore :: "char \<Rightarrow> bool" where
  "is_underscore c = (c = CHR ''_'')"

text \<open>
  \<^verbatim>\<open>
  def slugify(name: str) -> str:
      name = name.lower()
      name = re.sub(r"[^a-z0-9_]+", "_", name)
      name = re.sub(r"_+", "_", name).strip("_")
      return name[:PG_NAME_MAXLEN]
  \<close>
\<close>

definition slugify :: "string \<Rightarrow> string" where
  "slugify name =
     (let name1 = py_lower name;
          name2 = re_sub_plus (\<lambda>c. \<not> ident_char c) ''_'' name1;
          name3 = py_strip is_underscore (re_sub_plus is_underscore ''_'' name2)
      in take PG_NAME_MAXLEN name3)"

text \<open>The two shapes the specification speaks about: the pattern
  \<^verbatim>\<open>^[a-z0-9_]{0,63}$\<close> and the absence of two consecutive underscores.\<close>

definition matches_ident_0_63 :: "string \<Rightarrow> bool" where
  "matches_ident_0_63 s = (length s \<le> 63 \<and> list_all ident_char s)"

fun has_double_underscore :: "string \<Rightarrow> bool" where
  "has_double_underscore (a # b # cs) =
     ((is_underscore a \<and> is_underscore b) \<or> has_double_underscore (b # cs))"
| "has_double_underscore _ = False"

subsection \<open>More string primitives: upper-casing, suffix test, replacement, decimals\<close>

text \<open>\<^verbatim>\<open>str.upper\<close> on the code points below 256 whose upper-case form is again one
  code point below 256: a-z and the Latin-1 small letters (U+00E0 to U+00FE without the
  division sign U+00F7) move down by 32. The three remaining letters (U+00B5, U+00DF,
  U+00FF) have an upper-case form outside this range; they do not occur in the names of
  geometry types, which are ASCII words, and are left unchanged here.\<close>

definition upper_char :: "char \<Rightarrow> char" where
  "upper_char c =
     (let n = (of_char c :: nat)
      in if (97 \<le> n \<and> n \<le> 122) \<or> (224 \<le> n \<and> n \<le> 254 \<and> n \<noteq> 247)
         then char_of (n - 32) else c)"

definition py_upper :: "string \<Rightarrow> string" where
  "py_upper s = map upper_char s"

text \<open>\<^verbatim>\<open>s.endswith(suf)\<close>.\<close>

definition endswith :: "string \<Rightarrow> string \<Rightarrow> bool" where
  "endswith s suf = (length suf \<le> length s \<and> drop (length s - length suf) s = suf)"

text \<open>\<^verbatim>\<open>s.replace(old, new)\<close>: the occurrences of \<open>old\<close> are replaced from left to
  right without overlap; an empty \<open>old\<close> matches before every character and at the end.\<close>

function py_replace :: "string \<Rightarrow> string \<Rightarrow> string \<Rightarrow> string" where
  "py_replace old new [] = (if old = [] then new else [])"
| "py_replace old new (c # cs) =
     (if old = [] then new @ concat (map (\<lambda>d. d # new) (c # cs))
      else if take (length old) (c # cs) = old
      then new @ py_replace old new (drop (length old) (c # cs))
      else c # py_replace old new cs)"
  by pat_completeness auto
termination
  by (relation "measure (\<lambda>(old, new, s). length s)") auto

text \<open>\<^verbatim>\<open>str(n)\<close> for a non-negative integer, and the reading of a decimal numeral that
  undoes it.\<close>

definition digit_char :: "nat \<Rightarrow> char" where
  "digit_char d = char_of (48 + d)"

function str_nat :: "nat \<Rightarrow> string" where
  "str_nat n = (if n < 10 then [digit_char n] else str_nat (n div 10) @ [digit_char (n mod 10)])"
  by pat_completeness auto
termination
  by (relation "measure id") auto

declare str_nat.simps [simp del]

definition digit_val :: "char \<Rightarrow> nat" where
  "digit_val c = of_char c - 48"

definition nat_of_str :: "string \<Rightarrow> nat" where
  "nat_of_str s = foldl (\<lambda>a c. 10 * a + digit_val c) 0 s"

subsection \<open>Feature collections\<close>

text \<open>
  A Python exception is observed through its message \<^verbatim>\<open>str(e)\<close>. A geometry value
  carries the name of its type (\<^verbatim>\<open>geom.geom_type\<close>, such as \<^verbatim>\<open>Polygon\<close>) and whether
  it has a third coordinate. A feature collection (\<^verbatim>\<open>GeoDataFrame\<close>) has its column
  labels in order, one optional geometry per row (\<open>None\<close> for a missing geometry) and
  an optional reference system, of which only the result of \<^verbatim>\<open>crs.to_epsg()\<close> is
  observed: an exception, no code, or a code.
\<close>

datatype exn = Exn (message: string)

datatype geometry = Geometry (geom_type_of: string) (has_z: bool)

record gdf =
  columns :: "string list"
  geometry :: "geometry option list"
  crs :: "(exn + int option) option"

text \<open>\<^verbatim>\<open>gdf.geom_type\<close> and \<^verbatim>\<open>Series.dropna()\<close>.\<close>

definition geom_type :: "gdf \<Rightarrow> string option list" where
  "geom_type g = map (map_option geom_type_of) (geometry g)"

fun dropna :: "'a option list \<Rightarrow> 'a list" where
  "dropna [] = []"
| "dropna (None # xs) = dropna xs"
| "dropna (Some x # xs) = x # dropna xs"

subsection \<open>The column sanitiser (\<^verbatim>\<open>sanitize_columns\<close>)\<close>

text \<open>
  \<^verbatim>\<open>
  def sanitize_columns(gdf):
      cols, seen = [], set()
      for c in gdf.columns:
          if c == "geometry":
              cols.append(c); continue
          cc = slugify(c) or "col"
          base, i = cc, 2
          while cc in seen or cc == "geometry":
              cc = f"{base}_{i}"; i += 1
          seen.add(cc); cols.append(cc)
      return gdf.set_axis(cols, axis=1)
  \<close>
  The set \<open>seen\<close> is only ever tested for membership, so a list stands for it. The
  \<^verbatim>\<open>while\<close> loop is \<open>dedup_loop\<close>; it ends because the suffixed names are pairwise
  different and only finitely many names are taken.
\<close>

definition slug_or_col :: "string \<Rightarrow> string" where
  "slug_or_col c = (if slugify c = [] then ''col'' else slugify c)"

function dedup_loop :: "string list \<Rightarrow> string \<Rightarrow> string \<Rightarrow> nat \<Rightarrow> string" where
  "dedup_loop seen base cc i =
     (if cc \<in> set seen \<or> cc = ''geometry''
      then dedup_loop seen base (base @ ''_'' @ str_nat i) (i + 1)
      else cc)"
  by pat_completeness auto
termination
proof (relation "measure (\<lambda>(seen, base, cc, i).
          (if cc \<in> set seen \<or> cc = ''geometry'' then 1 else 0)
          + card {n. i \<le> n \<and> base @ ''_'' @ str_nat n \<in> insert ''geometry'' (set seen)})")
  show "wf (measure (\<lambda>(seen, base, cc, i).
          (if cc \<in> set seen \<or> cc = ''geometry'' then 1 else 0)
          + card {n. i \<le> n \<and> base @ ''_'' @ str_nat n \<in> insert ''geometry'' (set seen)}))"
    by simp
next
  fix seen :: "string list" and base cc :: string and i :: nat
  assume taken: "cc \<in> set seen \<or> cc = ''geometry''"
  let ?U = "insert ''geometry'' (set seen)"
  let ?f = "\<lambda>n. base @ ''_'' @ str_nat n"
  let ?A = "\<lambda>j. {n. j \<le> n \<and> ?f n \<in> ?U}"
  have inv: "nat_of_str (str_nat n) = n" for n
  proof (induction n rule: str_nat.induct)
    case (1 n)
    show ?case
    proof (cases "n < 10")
      case True
      then show ?thesis
        by (subst str_nat.simps) (simp add: nat_of_str_def digit_val_def digit_char_def)
    next
      case False
      then have "nat_of_str (str_nat (n div 10)) = n div 10" using 1 by simp
      then have "nat_of_str (str_nat (n div 10) @ [digit_char (n mod 10)])
                   = 10 * (n div 10) + n mod 10"
        by (simp add: nat_of_str_def digit_val_def digit_char_def)
      moreover have "str_nat n = str_nat (n div 10) @ [digit_char (n mod 10)]"
        using False by (subst str_nat.simps) simp
      ultimately show ?thesis by simp
    qed
  qed
  have "inj str_nat" by (rule inj_on_inverseI[where g = nat_of_str]) (rule inv)
  then have inj: "inj ?f" by (auto simp: inj_def)
  have "finite (?f -` ?U)" by (rule finite_vimageI[OF _ inj]) simp
  then have fin: "finite (?A (i + 1))" by (rule rev_finite_subset) auto
  have split: "?A i = (if ?f i \<in> ?U then insert i (?A (i + 1)) else ?A (i + 1))"
    by (auto simp: Suc_le_eq le_less)
  have "card (?A i) = (if ?f i \<in> ?U then 1 else 0) + card (?A (i + 1))"
    unfolding split using fin by simp
  then show "((seen, base, base @ ''_'' @ str_nat i, i + 1), (seen, base, cc, i))
      \<in> measure (\<lambda>(seen, base, cc, i).
          (if cc \<in> set seen \<or> cc = ''geometry'' then 1 else 0)
          + card {n. i \<le> n \<and> base @ ''_'' @ str_nat n \<in> insert ''geometry'' (set seen)})"
    using taken by auto
qed

declare dedup_loop.simps [simp del]

fun sanitize_loop :: "string list \<Rightarrow> string list \<Rightarrow> string list \<Rightarrow> string list" where
  "sanitize_loop [] cols seen = cols"
| "sanitize_loop (c # cs) cols seen =
     (if c = ''geometry'' then sanitize_loop cs (cols @ [c]) seen
      else let cc = slug_or_col c;
               cc = dedup_loop seen cc cc 2
           in sanitize_loop cs (cols @ [cc]) (cc # seen))"

definition sanitize_columns :: "gdf \<Rightarrow> gdf" where
  "sanitize_columns g = g\<lparr>columns := sanitize_loop (columns g) [] []\<rparr>"





subsection \<open>The geometry type classifiers\<close>

text \<open>
  The batch path (\<^verbatim>\<open>ingestion_from_shp.py\<close>):
  \<^verbatim>\<open>
  def geom_type_for_column(gdf, z):
      types = set([t.upper() for t in gdf.geom_type.dropna().unique()])
      norm = []
      for t in types:
          if t.endswith("ZM") or t.endswith("Z"):
              t = t.replace("ZM","").replace("Z","")
          norm.append(t)
      types = set(norm)
      if len(types) == 0:
          return ("GEOMETRYZ" if z else "GEOMETRY", True)
      if len(types) == 1:
          t = list(types)[0]
          return (f"{t}Z" if z else t, False)
      return ("GEOMETRYZ" if z else "GEOMETRY", True)
  \<close>
  A Python set is a list without duplicates here (\<open>py_set\<close>); the order in which
  Python would enumerate it does not matter, since only its size and, when it has one
  element, that element are used.
\<close>

definition py_set :: "'a list \<Rightarrow> 'a list" where
  "py_set xs = remdups xs"

definition strip_z :: "string \<Rightarrow> string" where
  "strip_z t =
     (if endswith t ''ZM'' \<or> endswith t ''Z''
      then py_replace ''Z'' [] (py_replace ''ZM'' [] t) else t)"

definition geom_type_for_column :: "gdf \<Rightarrow> bool \<Rightarrow> string \<times> bool" where
  "geom_type_for_column g z =
     (let types = py_set (map py_upper (dropna (geom_type g)));
          norm = map strip_z types;
          types = py_set norm
      in if length types = 0 then (if z then ''GEOMETRYZ'' else ''GEOMETRY'', True)
         else if length types = 1
         then (let t = hd types in (if z then t @ ''Z'' else t, False))
         else (if z then ''GEOMETRYZ'' else ''GEOMETRY'', True))"

text \<open>The set of distinct base geometry types of a collection: the type names of the
  rows that have a geometry, upper-cased, with the Z/ZM marker removed.\<close>

definition base_types :: "gdf \<Rightarrow> string set" where
  "base_types g = (\<lambda>t. strip_z (py_upper t)) ` set (dropna (geom_type g))"

text \<open>
  The upload path (\<^verbatim>\<open>utils_db.py\<close>):
  \<^verbatim>\<open>
  def _geom_family(gdf):
      fams = set(gdf.geom_type.dropna().str.upper())
      if fams & {"POLYGON","MULTIPOLYGON"}: return "MULTIPOLYGON"
      if fams & {"LINESTRING","MULTILINESTRING"}: return "MULTILINESTRING"
      if fams & {"POINT","MULTIPOINT"}: return "MULTIPOINT"
      return "GEOMETRY"
  \<close>
\<close>

definition geom_family :: "gdf \<Rightarrow> string" where
  "geom_family g =
     (let fams = set (map py_upper (dropna (geom_type g)))
      in if fams \<inter> {''POLYGON'', ''MULTIPOLYGON''} \<noteq> {} then ''MULTIPOLYGON''
         else if fams \<inter> {''LINESTRING'', ''MULTILINESTRING''} \<noteq> {} then ''MULTILINESTRING''
         else if fams \<inter> {''POINT'', ''MULTIPOINT''} \<noteq> {} then ''MULTIPOINT''
         else ''GEOMETRY'')"

text \<open>
  What it means for a collection to have a geometry of one of the types named by a list
  of words, in the words of the specification rather than of the code: some row has a
  geometry whose type name is one of the words, letter case apart (\<^verbatim>\<open>Polygon\<close>,
  \<^verbatim>\<open>POLYGON\<close> and \<^verbatim>\<open>polygon\<close> all name the type POLYGON). Two characters are the
  same letter when they are equal or one is a capital A to Z and the other its small
  letter. \<open>layer names\<close> is a collection with one geometry of each of the given type names.
\<close>

definition same_letter :: "char \<Rightarrow> char \<Rightarrow> bool" where
  "same_letter c d =
     (c = d \<or>
      (let m = (of_char c :: nat); n = (of_char d :: nat)
       in (65 \<le> m \<and> m \<le> 90 \<and> n = m + 32) \<or> (65 \<le> n \<and> n \<le> 90 \<and> m = n + 32)))"

definition equal_ignoring_case :: "string \<Rightarrow> string \<Rightarrow> bool" where
  "equal_ignoring_case s t = list_all2 same_letter s t"

definition capital :: "char \<Rightarrow> bool" where
  "capital X = (65 \<le> (of_char X :: nat) \<and> (of_char X :: nat) \<le> 90)"

definition has_type :: "gdf \<Rightarrow> string list \<Rightarrow> bool" where
  "has_type g words =
     (\<exists>t\<in>set (dropna (geom_type g)). \<exists>w\<in>set words. equal_ignoring_case t w)"

definition layer :: "string list \<Rightarrow> gdf" where
  "layer names =
     \<lparr>columns = [''geometry''], geometry = map (\<lambda>n. Some (Geometry n False)) names, crs = None\<rparr>"


subsection \<open>The encoding resolver\<close>

text \<open>
  The reader of the geometry library is outside the repository; it is a parameter: given
  a path and an encoding (\<open>None\<close> for \<^verbatim>\<open>gpd.read_file(path)\<close>, which lets the
  driver decide), it returns a feature collection or raises. Both resolvers are modelled
  with the list of the reader calls they make, in order, next to their result.

  The hint of the sidecar file, as the two modules compute it (the argument is the text
  of the \<^verbatim>\<open>.cpg\<close> file after \<^verbatim>\<open>.strip().upper()\<close>, \<open>None\<close> when there is no such
  file):
  \<^verbatim>\<open>
  enc_map = {"UTF-8": "utf-8", "UTF8": "utf-8", "LATIN1": "latin-1",
             "ISO-8859-1": "latin-1", "CP1252": "cp1252", "WINDOWS-1252": "cp1252"}
  enc_hint = enc_map.get(raw, raw.lower())
  \<close>
\<close>

type_synonym reader = "string \<Rightarrow> string option \<Rightarrow> exn + gdf"

definition enc_map :: "(string \<times> string) list" where
  "enc_map =
     [(''UTF-8'', ''utf-8''), (''UTF8'', ''utf-8''),
      (''LATIN1'', ''latin-1''), (''ISO-8859-1'', ''latin-1''),
      (''CP1252'', ''cp1252''), (''WINDOWS-1252'', ''cp1252'')]"

definition enc_hint_of :: "string option \<Rightarrow> string option" where
  "enc_hint_of cpg =
     (case cpg of None \<Rightarrow> None
      | Some raw \<Rightarrow> Some (case map_of enc_map raw of Some e \<Rightarrow> e | None \<Rightarrow> py_lower raw))"

text \<open>\<^verbatim>\<open>filter(None, trials)\<close> and \<^verbatim>\<open>if enc_hint:\<close> keep the strings that are neither
  \<^verbatim>\<open>None\<close> nor empty.\<close>

definition truthy_strs :: "string option list \<Rightarrow> string list" where
  "truthy_strs xs = filter (\<lambda>s. s \<noteq> []) (dropna xs)"

text \<open>
  The batch path:
  \<^verbatim>\<open>
  def read_shp_robust(path):
      cpg = Path(path).with_suffix(".cpg")
      enc_hint = None
      if cpg.exists():
          raw = cpg.read_text(errors="ignore").strip().upper()
          enc_hint = enc_map.get(raw, raw.lower())
      trials = [enc_hint, "utf-8", "latin-1", "cp1252"]
      for enc in filter(None, trials):
          try:
              return gpd.read_file(path, encoding=enc)
          except Exception:
              continue
      return gpd.read_file(path)
  \<close>
\<close>

fun robust_loop :: "reader \<Rightarrow> string \<Rightarrow> string list \<Rightarrow> string option list
                      \<Rightarrow> string option list \<times> (exn + gdf)" where
  "robust_loop rd path [] tried = (tried @ [None], rd path None)"
| "robust_loop rd path (enc # encs) tried =
     (case rd path (Some enc) of
        Inr g \<Rightarrow> (tried @ [Some enc], Inr g)
      | Inl e \<Rightarrow> robust_loop rd path encs (tried @ [Some enc]))"

definition read_shp_robust ::
  "reader \<Rightarrow> string \<Rightarrow> string option \<Rightarrow> string option list \<times> (exn + gdf)" where
  "read_shp_robust rd path cpg =
     (let enc_hint = enc_hint_of cpg;
          trials = [enc_hint, Some ''utf-8'', Some ''latin-1'', Some ''cp1252'']
      in robust_loop rd path (truthy_strs trials) [])"

text \<open>
  \<^verbatim>\<open>repr\<close> of a string and of a list of strings, as an f-string prints a list: the quote
  is the double quote when the string has a single quote and no double quote, the single
  quote otherwise; the quote and the backslash are escaped, tab, newline and carriage
  return are written with their letters, and the other code points below 256 that are
  not printable (controls, U+007F to U+00A0, U+00AD) are written in hexadecimal.
\<close>

definition printable :: "char \<Rightarrow> bool" where
  "printable c =
     (let n = (of_char c :: nat) in (32 \<le> n \<and> n < 127) \<or> (161 \<le> n \<and> n \<noteq> 173))"

definition hex_digit :: "nat \<Rightarrow> char" where
  "hex_digit d = ''0123456789abcdef'' ! (d mod 16)"

definition repr_char :: "char \<Rightarrow> char \<Rightarrow> string" where
  "repr_char q c =
     (if c = q \<or> c = CHR 0x5C then [CHR 0x5C, c]
      else if c = CHR 0x09 then [CHR 0x5C, CHR ''t'']
      else if c = CHR 0x0A then [CHR 0x5C, CHR ''n'']
      else if c = CHR 0x0D then [CHR 0x5C, CHR ''r'']
      else if printable c then [c]
      else [CHR 0x5C, CHR ''x'', hex_digit (of_char c div 16), hex_digit (of_char c mod 16)])"

definition py_repr_str :: "string \<Rightarrow> string" where
  "py_repr_str s =
     (let q = (if CHR 0x27 \<in> set s \<and> CHR 0x22 \<notin> set s then CHR 0x22 else CHR 0x27)
      in [q] @ concat (map (repr_char q) s) @ [q])"

fun py_join :: "string \<Rightarrow> string list \<Rightarrow> string" where
  "py_join sep [] = []"
| "py_join sep [x] = x"
| "py_join sep (x # y # ys) = x @ sep @ py_join sep (y # ys)"

definition py_repr_list :: "string list \<Rightarrow> string" where
  "py_repr_list xs = ''['' @ py_join '', '' (map py_repr_str xs) @ '']''"

definition py_str_exn_opt :: "exn option \<Rightarrow> string" where
  "py_str_exn_opt e = (case e of None \<Rightarrow> ''None'' | Some x \<Rightarrow> message x)"

text \<open>
  The upload path:
  \<^verbatim>\<open>
  def _read_gdf_try_encodings(path, enc_hint=None):
      trials = []
      if enc_hint:
          trials.append(enc_hint)
      trials += ["utf-8", "latin-1", "cp1252"]
      last_err = None
      for enc in trials:
          try:
              return gpd.read_file(path, encoding=enc)
          except Exception as e:
              last_err = e
              continue
      try:
          return gpd.read_file(path)
      except Exception as e2:
          raise RuntimeError(f"Impossible de lire le SHP (encodings test[e]s: {trials}). Derni[e]re erreur: {last_err}") from e2
  \<close>
  (the two letters written \<^verbatim>\<open>[e]\<close> here are the accented code points U+00E9 and
  U+00E8 in the source).
\<close>

definition read_failure_message :: "string list \<Rightarrow> exn option \<Rightarrow> string" where
  "read_failure_message trials last_err =
     ''Impossible de lire le SHP (encodings test'' @ [CHR 0xE9] @ ''s: '' @ py_repr_list trials
       @ ''). Derni'' @ [CHR 0xE8] @ ''re erreur: '' @ py_str_exn_opt last_err"

fun try_loop :: "reader \<Rightarrow> string \<Rightarrow> string list \<Rightarrow> string list \<Rightarrow> exn option
                   \<Rightarrow> string option list \<Rightarrow> string option list \<times> (exn + gdf)" where
  "try_loop rd path trials [] last_err tried =
     (case rd path None of
        Inr g \<Rightarrow> (tried @ [None], Inr g)
      | Inl e2 \<Rightarrow> (tried @ [None], Inl (Exn (read_failure_message trials last_err))))"
| "try_loop rd path trials (enc # encs) last_err tried =
     (case rd path (Some enc) of
        Inr g \<Rightarrow> (tried @ [Some enc], Inr g)
      | Inl e \<Rightarrow> try_loop rd path trials encs (Some e) (tried @ [Some enc]))"

definition read_gdf_try_encodings ::
  "reader \<Rightarrow> string \<Rightarrow> string option \<Rightarrow> string option list \<times> (exn + gdf)" where
  "read_gdf_try_encodings rd path enc_hint =
     (let trials = truthy_strs [enc_hint] @ [''utf-8'', ''latin-1'', ''cp1252'']
      in try_loop rd path trials trials None [])"

text \<open>The value of \<^verbatim>\<open>last_err\<close> when the loop over the encodings \<open>encs\<close> has failed
  on each of them.\<close>

definition final_err :: "reader \<Rightarrow> string \<Rightarrow> string list \<Rightarrow> exn option \<Rightarrow> exn option" where
  "final_err rd path encs last_err =
     (if encs = [] then last_err else Some (projl (rd path (Some (last encs)))))"

text \<open>A reader that cannot open any file and says which, as the driver does.\<close>

definition unreadable :: reader where
  "unreadable path enc = Inl (Exn (path @ '' not recognized as a supported file format''))"

text \<open>Two readers for the concrete runs below: one that fails on every call with the
  same message, one that can read a file with one encoding only.\<close>

definition always_fails :: "string \<Rightarrow> reader" where
  "always_fails msg path enc = Inl (Exn msg)"

definition reads_only :: "string \<Rightarrow> gdf \<Rightarrow> reader" where
  "reads_only good g path enc = (if enc = Some good then Inr g else Inl (Exn ''cannot decode''))"

subsection \<open>The database and the log as explicit state\<close>

text \<open>
  The database is outside the repository. Each statement the code sends is a value of
  \<open>db_op\<close>, named after the SQL text it stands for:
  \<^item> \<open>CreateExtension\<close>: \<^verbatim>\<open>CREATE EXTENSION IF NOT EXISTS postgis\<close>;
  \<^item> \<open>CreateGeojsonFunction\<close>: \<^verbatim>\<open>CREATE OR REPLACE FUNCTION public.create_geojson_view(...)\<close>;
  \<^item> \<open>CreateSchema s\<close>: \<^verbatim>\<open>CREATE SCHEMA IF NOT EXISTS {s}\<close>;
  \<^item> \<open>WriteTable s t g mode col dtype chunk\<close>: the call \<^verbatim>\<open>gdf.to_postgis(...)\<close> with
    \<^verbatim>\<open>if_exists=mode\<close>, \<^verbatim>\<open>dtype={col: dtype}\<close> and \<^verbatim>\<open>chunksize=chunk\<close>;
  \<^item> \<open>SelectColumns s t\<close>: \<^verbatim>\<open>SELECT column_name FROM information_schema.columns WHERE
    table_schema=:s AND table_name=:t\<close>;
  \<^item> \<open>RenameGeometry s t\<close>: \<^verbatim>\<open>ALTER TABLE "{s}"."{t}" RENAME COLUMN "geometry" TO "geom"\<close>;
  \<^item> \<open>CreateIndex s t\<close>: \<^verbatim>\<open>CREATE INDEX IF NOT EXISTS "{t}_geom_gix" ON "{s}"."{t}" USING GIST("geom")\<close>;
  \<^item> \<open>AddIdColumn s t\<close>: \<^verbatim>\<open>ALTER TABLE "{s}"."{t}" ADD COLUMN IF NOT EXISTS id bigserial\<close>;
  \<^item> \<open>AddPrimaryKey s t\<close>: \<^verbatim>\<open>ALTER TABLE "{s}"."{t}" ADD CONSTRAINT "{t}_pkey" PRIMARY KEY (id)\<close>;
  \<^item> \<open>AlterGeomMulti s t fam srid\<close>: \<^verbatim>\<open>ALTER TABLE "{s}"."{t}" ALTER COLUMN "geom" TYPE
    geometry({fam},{srid}) USING ST_Multi(ST_Force2D("geom"))\<close>;
  \<^item> \<open>Analyze s t\<close>: \<^verbatim>\<open>ANALYZE "{s}"."{t}"\<close>;
  \<^item> \<open>CallGeojsonView s t v\<close>: \<^verbatim>\<open>SELECT public.create_geojson_view(:s,:t,:v)\<close>;
  \<^item> \<open>CreateReprojView s t v\<close>: \<^verbatim>\<open>CREATE OR REPLACE VIEW "{s}"."{v}" AS SELECT *,
    ST_Transform(geom, 4326) AS geom_4326 FROM "{s}"."{t}"\<close>;
  \<^item> \<open>EnableRLS s t\<close>: \<^verbatim>\<open>ALTER TABLE "{s}"."{t}" ENABLE ROW LEVEL SECURITY\<close>;
  \<^item> \<open>SelectPolicy s t p\<close>: \<^verbatim>\<open>SELECT 1 FROM pg_policies WHERE schemaname = :s AND
    tablename = :t AND policyname = :p\<close>;
  \<^item> \<open>CreatePolicy p s t\<close>: \<^verbatim>\<open>CREATE POLICY "{p}" ON "{s}"."{t}" FOR SELECT TO anon USING (true)\<close>;
  \<^item> \<open>GrantSelect s v\<close>: \<^verbatim>\<open>GRANT SELECT ON "{s}"."{v}" TO anon\<close>.

  \<open>GeometryT ty srid dim\<close> is the column type \<^verbatim>\<open>Geometry(geometry_type=ty, srid=srid,
  dimension=dim)\<close>. An executor says what the database does with a statement in a given
  state: it raises or returns rows (each row observed through its first column, the only
  one the code reads), and leaves a new state. The executor is a parameter of every
  function that talks to the database. Transaction scopes (\<^verbatim>\<open>engine.begin()\<close>) are not
  statements of the model: it records which statements are sent, in which order, and which
  exception leaves the function; what a failed statement does to the transaction it is
  in is up to the executor.
\<close>

datatype geom_dtype = GeometryT string "int option" nat

datatype db_op =
    CreateExtension
  | CreateGeojsonFunction
  | CreateSchema string
  | WriteTable string string gdf string string geom_dtype "nat option"
  | SelectColumns string string
  | RenameGeometry string string
  | CreateIndex string string
  | AddIdColumn string string
  | AddPrimaryKey string string
  | AlterGeomMulti string string string int
  | Analyze string string
  | CallGeojsonView string string string
  | CreateReprojView string string string
  | EnableRLS string string
  | SelectPolicy string string string
  | CreatePolicy string string string
  | GrantSelect string string

type_synonym 'db executor = "db_op \<Rightarrow> 'db \<Rightarrow> (exn + string list) \<times> 'db"

text \<open>
  The messages passed to \<^verbatim>\<open>logging\<close>, one constructor per call site, with the values
  the message is formatted from: \<open>RootDir\<close> is \<^verbatim>\<open>logging.info(f"Racine: {root}")\<close>, \<open>FileStart\<close> is \<^verbatim>\<open>logging.info(f"=== {shp}")\<close>,
  \<open>EmptySkipped\<close> and \<open>UnknownCrs\<close> are the two warnings of \<^verbatim>\<open>main\<close>,
  \<open>TableInfo\<close> is the line \<^verbatim>\<open>-> table=... geom=... srid=... mixed=...\<close> of
  \<^verbatim>\<open>to_postgis\<close>, \<open>FileError\<close> is \<^verbatim>\<open>logging.exception(f"ERREUR {shp}: {e}")\<close>,
  \<open>ErrorCount\<close> is the warning that counts the errors and \<open>Done\<close> the last line.
\<close>

datatype log_event =
    RootDir string
  | FileStart string
  | EmptySkipped
  | UnknownCrs
  | TableInfo string string string "int option" bool
  | FileError string string
  | ErrorCount nat
  | Done

record 'db world =
  db :: 'db
  sent :: "db_op list"
  logs :: "log_event list"

definition fresh :: "'db \<Rightarrow> 'db world" where
  "fresh d = \<lparr>db = d, sent = [], logs = []\<rparr>"

type_synonym ('db, 'a) act = "'db world \<Rightarrow> (exn + 'a) \<times> 'db world"

definition ret :: "'a \<Rightarrow> ('db, 'a) act" where
  "ret x w = (Inr x, w)"

definition raise :: "exn \<Rightarrow> ('db, 'a) act" where
  "raise e w = (Inl e, w)"

text \<open>Sequencing: an exception of the first action ends the sequence.\<close>

definition and_then :: "('db, 'a) act \<Rightarrow> ('a \<Rightarrow> ('db, 'b) act) \<Rightarrow> ('db, 'b) act" where
  "and_then m f w = (case m w of (Inl e, w') \<Rightarrow> (Inl e, w') | (Inr x, w') \<Rightarrow> f x w')"

text \<open>\<^verbatim>\<open>conn.execute(text(...))\<close>: the statement is recorded as sent, the executor decides
  its outcome.\<close>

definition execute :: "'db executor \<Rightarrow> db_op \<Rightarrow> ('db, string list) act" where
  "execute ex op w =
     (case ex op (db w) of (r, d') \<Rightarrow> (r, w\<lparr>db := d', sent := sent w @ [op]\<rparr>))"

definition log_event :: "log_event \<Rightarrow> ('db, unit) act" where
  "log_event ev w = (Inr (), w\<lparr>logs := logs w @ [ev]\<rparr>)"

text \<open>\<^verbatim>\<open>try: m  except Exception: pass\<close>.\<close>

definition try_pass :: "('db, 'a) act \<Rightarrow> ('db, unit) act" where
  "try_pass m w = (case m w of (r, w') \<Rightarrow> (Inr (), w'))"

subsection \<open>Writing and finalising a table\<close>

definition IF_EXISTS :: string where
  "IF_EXISTS = ''replace''"

definition CHUNKSIZE :: nat where
  "CHUNKSIZE = 5000"

text \<open>
  The batch path:
  \<^verbatim>\<open>
  def to_postgis(engine, gdf, table, schema, srid, z):
      gtype, mixed = geom_type_for_column(gdf, z)
      geom_dtype = Geometry(geometry_type=gtype, srid=srid, dimension=3 if z else 2)
      logging.info(f"-> table={schema}.{table}  geom={gtype}  srid={srid}  mixed={mixed}")
      with engine.begin() as conn:
          conn.execute(text(f"CREATE SCHEMA IF NOT EXISTS {schema}"))
      gdf.to_postgis(name=table, con=engine, schema=schema, if_exists=IF_EXISTS, index=False,
          dtype={"geom": geom_dtype} if "geom" in gdf.columns else {"geometry": geom_dtype},
          chunksize=CHUNKSIZE)
      with engine.begin() as conn:
          cols = conn.execute(text("SELECT column_name ..."), {"s": schema, "t": table}).fetchall()
          colnames = {c[0] for c in cols}
          if "geometry" in colnames and "geom" not in colnames:
              conn.execute(text(f'ALTER TABLE ... RENAME COLUMN "geometry" TO "geom"'))
          conn.execute(text(f'CREATE INDEX IF NOT EXISTS ...'))
          conn.execute(text(f'ALTER TABLE ... ADD COLUMN IF NOT EXISTS id bigserial'))
          try:
              conn.execute(text(f'ALTER TABLE ... ADD CONSTRAINT "{table}_pkey" PRIMARY KEY (id)'))
          except Exception:
              pass
          conn.execute(text(f'ANALYZE "{schema}"."{table}"'))
  \<close>
\<close>

definition to_postgis ::
  "'db executor \<Rightarrow> gdf \<Rightarrow> string \<Rightarrow> string \<Rightarrow> int option \<Rightarrow> bool \<Rightarrow> ('db, unit) act" where
  "to_postgis ex g table schema srid_v z =
     (case geom_type_for_column g z of (gtype, mixed) \<Rightarrow>
        let geom_dtype = GeometryT gtype srid_v (if z then 3 else 2) in
        and_then (log_event (TableInfo schema table gtype srid_v mixed)) (\<lambda>_.
        and_then (execute ex (CreateSchema schema)) (\<lambda>_.
        and_then (execute ex (WriteTable schema table g IF_EXISTS
                    (if ''geom'' \<in> set (columns g) then ''geom'' else ''geometry'')
                    geom_dtype (Some CHUNKSIZE))) (\<lambda>_.
        and_then (execute ex (SelectColumns schema table)) (\<lambda>cols.
        let colnames = set cols in
        and_then (if ''geometry'' \<in> colnames \<and> ''geom'' \<notin> colnames
                  then and_then (execute ex (RenameGeometry schema table)) (\<lambda>_. ret ())
                  else ret ()) (\<lambda>_.
        and_then (execute ex (CreateIndex schema table)) (\<lambda>_.
        and_then (execute ex (AddIdColumn schema table)) (\<lambda>_.
        and_then (try_pass (execute ex (AddPrimaryKey schema table))) (\<lambda>_.
        and_then (execute ex (Analyze schema table)) (\<lambda>_. ret ()))))))))))"

text \<open>
  The upload path, from the classification of the family to the result record (the
  value \<open>srid_v\<close> is the one the lines before have computed: \<open>None\<close> or an EPSG code):
  \<^verbatim>\<open>
        fam = _geom_family(gdf)
        dtype = {"geom": Geometry(geometry_type=fam if srid else "GEOMETRY", srid=srid)}
        gdf.to_postgis(table_name, engine, schema=schema, if_exists="replace", index=False,
                       dtype=dtype)
        with engine.begin() as conn:
            conn.execute(text(f'ALTER TABLE ... ADD COLUMN IF NOT EXISTS id bigserial'))
            try:
                conn.execute(text(f'ALTER TABLE ... ADD CONSTRAINT "{table_name}_pkey" PRIMARY KEY (id)'))
            except Exception:
                pass
            if srid and fam in ("MULTIPOLYGON","MULTILINESTRING","MULTIPOINT"):
                conn.execute(text(
                    f'ALTER TABLE "{schema}"."{table_name}" '
                    f'ALTER COLUMN "geom" TYPE geometry({fam},{srid}) '
                    f'USING ST_Multi(ST_Force2D("geom"))'))
            conn.execute(text(f'CREATE INDEX IF NOT EXISTS ...'))
            conn.execute(text(f'ANALYZE "{schema}"."{table_name}"'))
        return {"schema": schema, "table": table_name, "rows": len(gdf),
                "geom_type": fam, "srid": srid}
  \<close>
  Python's \<^verbatim>\<open>if srid\<close> holds for an integer other than 0 and fails for \<^verbatim>\<open>None\<close> and 0.
  The \<^verbatim>\<open>with\<close> block is \<open>upload_post_load\<close>.
\<close>

definition truthy_int :: "int option \<Rightarrow> bool" where
  "truthy_int v = (case v of None \<Rightarrow> False | Some n \<Rightarrow> n \<noteq> 0)"

definition upload_post_load ::
  "'db executor \<Rightarrow> string \<Rightarrow> string \<Rightarrow> string \<Rightarrow> int option \<Rightarrow> ('db, unit) act" where
  "upload_post_load ex schema table_name fam srid_v =
     and_then (execute ex (AddIdColumn schema table_name)) (\<lambda>_.
     and_then (try_pass (execute ex (AddPrimaryKey schema table_name))) (\<lambda>_.
     and_then (if truthy_int srid_v \<and> fam \<in> {''MULTIPOLYGON'', ''MULTILINESTRING'', ''MULTIPOINT''}
               then and_then (execute ex (AlterGeomMulti schema table_name fam (the srid_v)))
                      (\<lambda>_. ret ())
               else ret ()) (\<lambda>_.
     and_then (execute ex (CreateIndex schema table_name)) (\<lambda>_.
     and_then (execute ex (Analyze schema table_name)) (\<lambda>_. ret ())))))"


subsection \<open>Publishing views and the access policy\<close>

definition CREATE_GEOJSON_VIEW :: bool where
  "CREATE_GEOJSON_VIEW = False"

definition CREATE_REPROJECTED_VIEW_4326 :: bool where
  "CREATE_REPROJECTED_VIEW_4326 = False"

definition APPLY_RLS_AND_GRANT :: bool where
  "APPLY_RLS_AND_GRANT = True"

text \<open>
  \<^verbatim>\<open>
  def create_views_and_policies(engine, schema, table):
      view_geojson = f"v_{table}"
      with engine.begin() as conn:
          if CREATE_GEOJSON_VIEW:
              conn.execute(text("SELECT public.create_geojson_view(:s,:t,:v)"), {...})
          if CREATE_REPROJECTED_VIEW_4326:
              view_reproj = f"v_{table}_4326"
              conn.execute(text(f"""CREATE OR REPLACE VIEW ..."""))
          if APPLY_RLS_AND_GRANT:
              conn.execute(text(f'ALTER TABLE "{schema}"."{table}" ENABLE ROW LEVEL SECURITY'))
              policy = f"read_{table}_anon"
              exists = conn.execute(text("""SELECT 1 FROM pg_policies WHERE schemaname = :s
                  AND tablename = :t AND policyname = :p"""), {...}).first()
              if not exists:
                  conn.execute(text(f'CREATE POLICY "{policy}" ON "{schema}"."{table}" '
                                    f'FOR SELECT TO anon USING (true)'))
              if CREATE_GEOJSON_VIEW:
                  conn.execute(text(f'GRANT SELECT ON "{schema}"."{view_geojson}" TO anon'))
  \<close>
  \<^verbatim>\<open>.first()\<close> is the first row or \<^verbatim>\<open>None\<close>; a row is true.
\<close>

definition policy_name :: "string \<Rightarrow> string" where
  "policy_name table = ''read_'' @ table @ ''_anon''"

definition do_when :: "bool \<Rightarrow> ('db, 'a) act \<Rightarrow> ('db, unit) act" where
  "do_when b m = (if b then and_then m (\<lambda>_. ret ()) else ret ())"

definition create_views_and_policies :: "'db executor \<Rightarrow> string \<Rightarrow> string \<Rightarrow> ('db, unit) act" where
  "create_views_and_policies ex schema table =
     (let view_geojson = ''v_'' @ table in
      and_then (do_when CREATE_GEOJSON_VIEW (execute ex (CallGeojsonView schema table view_geojson))) (\<lambda>_.
      and_then (do_when CREATE_REPROJECTED_VIEW_4326
                  (execute ex (CreateReprojView schema table (''v_'' @ table @ ''_4326'')))) (\<lambda>_.
      do_when APPLY_RLS_AND_GRANT
        (and_then (execute ex (EnableRLS schema table)) (\<lambda>_.
         let policy = policy_name table in
         and_then (execute ex (SelectPolicy schema table policy)) (\<lambda>rows.
         let found = (rows \<noteq> []) in
         and_then (do_when (\<not> found) (execute ex (CreatePolicy policy schema table))) (\<lambda>_.
         do_when CREATE_GEOJSON_VIEW (execute ex (GrantSelect schema view_geojson)))))))))"

text \<open>
  What PostgreSQL's catalogue does with the three statements of the policy step: a table
  is known by schema and name, row level security can be enabled on a known table any
  number of times, \<^verbatim>\<open>pg_policies\<close> has one row per policy, and creating a policy fails
  when the table is unknown or has a policy of that name. Names are compared as the code
  writes them (the truncation of identifiers longer than 63 bytes is left out). The
  other statements are not interpreted by this executor.
\<close>

record pg =
  pg_tables :: "(string \<times> string) list"
  pg_rls :: "(string \<times> string) list"
  pg_policies :: "(string \<times> string \<times> string) list"

fun pg_exec :: "pg executor" where
  "pg_exec (EnableRLS s t) d =
     (if (s, t) \<in> set (pg_tables d) then (Inr [], d\<lparr>pg_rls := List.insert (s, t) (pg_rls d)\<rparr>)
      else (Inl (Exn ''relation does not exist''), d))"
| "pg_exec (SelectPolicy s t p) d =
     (Inr (map (\<lambda>_. ''1'') (filter (\<lambda>x. x = (s, t, p)) (pg_policies d))), d)"
| "pg_exec (CreatePolicy p s t) d =
     (if (s, t) \<notin> set (pg_tables d) then (Inl (Exn ''relation does not exist''), d)
      else if (s, t, p) \<in> set (pg_policies d) then (Inl (Exn ''policy already exists''), d)
      else (Inr [], d\<lparr>pg_policies := pg_policies d @ [(s, t, p)]\<rparr>))"
| "pg_exec _ d = (Inr [], d)"

text \<open>A statement is a coercion when it is the \<^verbatim>\<open>ST_Multi(ST_Force2D(...))\<close> rewrite of the
  geometry column.\<close>

fun is_coercion :: "db_op \<Rightarrow> bool" where
  "is_coercion (AlterGeomMulti s t fam n) = True"
| "is_coercion _ = False"

text \<open>The declared type of the geometry column of one table, in a database that accepts
  every statement: the coercion statement makes it \<^verbatim>\<open>geometry({fam},{srid})\<close>, two
  dimensional after \<^verbatim>\<open>ST_Force2D\<close>; no other statement of the post-load step touches it.\<close>

definition col_exec :: "geom_dtype executor" where
  "col_exec op ty =
     (case op of
        AlterGeomMulti s t fam n \<Rightarrow> (Inr [], GeometryT fam (Some n) 2)
      | _ \<Rightarrow> (Inr [], ty))"

text \<open>An executor over a database without state that accepts every statement, for the
  concrete runs below.\<close>

definition all_ok :: "unit executor" where
  "all_ok op d = (Inr [], ())"

text \<open>
  PostgreSQL's rule for a statement that fails inside a transaction: the transaction is
  aborted, and every later statement of the same transaction is refused. The state says
  whether the \<open>id\<close> column of the table can serve as a key (it cannot when the layer has
  an attribute \<open>id\<close> with repeated values) and whether the transaction is aborted. From
  the primary key statement on, each finaliser stays in one transaction.
\<close>

record txdb =
  tx_pk_blocked :: bool
  tx_aborted :: bool

definition tx_exec :: "txdb executor" where
  "tx_exec op d =
     (if tx_aborted d
      then (Inl (Exn ''current transaction is aborted, commands ignored until end of transaction block''), d)
      else (case op of
              AddPrimaryKey s t \<Rightarrow>
                if tx_pk_blocked d
                then (Inl (Exn (''could not create unique index '' @ [CHR 0x22] @ t @ ''_pkey'' @ [CHR 0x22])),
                      d\<lparr>tx_aborted := True\<rparr>)
                else (Inr [], d)
            | _ \<Rightarrow> (Inr [], d)))"




subsection \<open>The batch run (\<^verbatim>\<open>main\<close>)\<close>

definition PG_SCHEMA :: string where
  "PG_SCHEMA = ''public''"

text \<open>
  \<^verbatim>\<open>
  def detect_srid(gdf):
      if gdf.crs is None: return None
      try:
          epsg = gdf.crs.to_epsg()
          return int(epsg) if epsg else None
      except Exception:
          return None

  def has_z_any(gdf):
      for geom in gdf.geometry:
          if geom is None: continue
          try:
              if getattr(geom, "has_z", False): return True
          except Exception:
              pass
      return False
  \<close>
\<close>

definition detect_srid :: "gdf \<Rightarrow> int option" where
  "detect_srid g =
     (case crs g of
        None \<Rightarrow> None
      | Some (Inl e) \<Rightarrow> None
      | Some (Inr None) \<Rightarrow> None
      | Some (Inr (Some n)) \<Rightarrow> if n \<noteq> 0 then Some n else None)"

definition has_z_any :: "gdf \<Rightarrow> bool" where
  "has_z_any g = list_ex has_z (dropna (geometry g))"

text \<open>\<^verbatim>\<open>gdf.empty\<close>: no row or no column. \<^verbatim>\<open>gdf.rename(columns={"geometry": "geom"})\<close>.\<close>

definition gdf_empty :: "gdf \<Rightarrow> bool" where
  "gdf_empty g = (geometry g = [] \<or> columns g = [])"

definition rename_geometry :: "gdf \<Rightarrow> gdf" where
  "rename_geometry g = g\<lparr>columns := map (\<lambda>c. if c = ''geometry'' then ''geom'' else c) (columns g)\<rparr>"

text \<open>
  \<^verbatim>\<open>
  def ensure_postgis_and_helpers(engine):
      with engine.begin() as conn:
          conn.execute(text("CREATE EXTENSION IF NOT EXISTS postgis"))
          conn.execute(text("""CREATE OR REPLACE FUNCTION public.create_geojson_view(...) ..."""))
  \<close>
\<close>

definition ensure_postgis_and_helpers :: "'db executor \<Rightarrow> ('db, unit) act" where
  "ensure_postgis_and_helpers ex =
     and_then (execute ex CreateExtension) (\<lambda>_.
     and_then (execute ex CreateGeojsonFunction) (\<lambda>_. ret ()))"

text \<open>
  The body of the loop of \<^verbatim>\<open>main\<close>, inside its \<^verbatim>\<open>try\<close>:
  \<^verbatim>\<open>
            logging.info(f"=== {shp}")
            gdf = read_shp_robust(shp)
            if gdf.empty:
                logging.warning("  -> vide, on saute.")
                continue
            srid = detect_srid(gdf)
            if srid is None:
                logging.warning("  -> CRS inconnu (.prj manquant ?), stockage sans SRID explicite.")
            gdf = sanitize_columns(gdf)
            if "geometry" in gdf.columns:
                gdf = gdf.rename(columns={"geometry": "geom"})
            if "geom" in gdf.columns:
                gdf = gdf.set_geometry("geom")
            z = has_z_any(gdf)
            table = table_name_from_path(root, shp)
            to_postgis(engine, gdf, table, PG_SCHEMA, srid, z)
            create_views_and_policies(engine, PG_SCHEMA, table)
  \<close>
  The file system is a parameter: \<open>cpg_of shp\<close> is the text of the sidecar file of
  \<open>shp\<close>, stripped and upper-cased (\<open>None\<close> when there is none), and \<open>rel_stem root shp\<close>
  is the path of \<open>shp\<close> relative to \<open>root\<close> without its suffix, which
  \<^verbatim>\<open>table_name_from_path\<close> passes to \<^verbatim>\<open>slugify\<close>.

  \<^verbatim>\<open>gdf.set_geometry("geom")\<close> looks the column up by its label and raises
  \<^verbatim>\<open>ValueError\<close> when no column has the label, and when several columns share it
  (\<^verbatim>\<open>frame[col]\<close> is then a table, not a column). The second case is met when an
  attribute column is normalised to \<^verbatim>\<open>geom\<close>: \<^verbatim>\<open>sanitize_columns\<close> keeps clear of the
  name \<^verbatim>\<open>geometry\<close> only, and the renaming that follows gives the geometry column the
  same label. A collection read from a shapefile has its geometries in the column
  \<^verbatim>\<open>geometry\<close>, so a single column \<^verbatim>\<open>geom\<close> after the renaming is that column; its
  values are the field \<open>geometry\<close> of the record, whatever the label of the column.
\<close>

definition set_geometry :: "string \<Rightarrow> gdf \<Rightarrow> exn + gdf" where
  "set_geometry col g =
     (if col \<notin> set (columns g) then Inl (Exn (''Unknown column '' @ col))
      else if 1 < count_list (columns g) col
      then Inl (Exn (''GeoDataFrame does not support setting the geometry column where ''
                     @ ''the column name is shared by multiple columns.''))
      else Inr g)"

definition table_name_from_path :: "(string \<Rightarrow> string \<Rightarrow> string) \<Rightarrow> string \<Rightarrow> string \<Rightarrow> string" where
  "table_name_from_path rel_stem root shp_path = slugify (rel_stem root shp_path)"

definition ingest_one ::
  "'db executor \<Rightarrow> reader \<Rightarrow> (string \<Rightarrow> string option) \<Rightarrow> (string \<Rightarrow> string \<Rightarrow> string)
     \<Rightarrow> string \<Rightarrow> string \<Rightarrow> ('db, unit) act" where
  "ingest_one ex rd cpg_of rel_stem root shp =
     and_then (log_event (FileStart shp)) (\<lambda>_.
     case snd (read_shp_robust rd shp (cpg_of shp)) of
       Inl e \<Rightarrow> raise e
     | Inr g \<Rightarrow>
         if gdf_empty g then log_event EmptySkipped
         else
           let srid_v = detect_srid g in
           and_then (do_when (srid_v = None) (log_event UnknownCrs)) (\<lambda>_.
           let g1 = sanitize_columns g;
               g2 = (if ''geometry'' \<in> set (columns g1) then rename_geometry g1 else g1) in
           case (if ''geom'' \<in> set (columns g2) then set_geometry ''geom'' g2 else Inr g2) of
             Inl e \<Rightarrow> raise e
           | Inr g3 \<Rightarrow>
               let z = has_z_any g3;
                   table = table_name_from_path rel_stem root shp in
               and_then (to_postgis ex g3 table PG_SCHEMA srid_v z) (\<lambda>_.
               create_views_and_policies ex PG_SCHEMA table)))"

text \<open>
  The loop and the end of \<^verbatim>\<open>main\<close>:
  \<^verbatim>\<open>
    errors = []
    for shp in list_shp_files(root):
        try:
            ...
        except Exception as e:
            logging.exception(f"ERREUR {shp}: {e}")
            errors.append({"file": shp, "error": str(e)})
    if errors:
        out = Path("ingest_shp_errors.json")
        out.write_text(json.dumps(errors, ensure_ascii=False, indent=2))
        logging.warning(f"{len(errors)} erreur(s) ...: {out}")
    logging.info("Termin[e].")
  \<close>
  Before the loop, \<^verbatim>\<open>main\<close> logs the root directory, builds the engine from the
  environment (not modelled: a missing variable ends the program before any file is
  looked at) and calls \<^verbatim>\<open>ensure_postgis_and_helpers\<close>.
  \<open>batch_loop\<close> is the \<^verbatim>\<open>for\<close> statement for any loop body, with the list of files
  that \<^verbatim>\<open>list_shp_files(root)\<close> yields; an entry of \<open>errors\<close> is the pair of the two
  fields of the dictionary. \<open>batch_run\<close> is the part of \<^verbatim>\<open>main\<close> from
  \<^verbatim>\<open>errors = []\<close> on; its value is the list written to the report file, \<open>None\<close>
  when no file is written.
\<close>

fun batch_loop ::
  "(string \<Rightarrow> ('db, unit) act) \<Rightarrow> string list \<Rightarrow> (string \<times> string) list \<Rightarrow> 'db world
     \<Rightarrow> (string \<times> string) list \<times> 'db world" where
  "batch_loop body [] errors w = (errors, w)"
| "batch_loop body (shp # rest) errors w =
     (case body shp w of
        (Inr u, w') \<Rightarrow> batch_loop body rest errors w'
      | (Inl e, w') \<Rightarrow>
          batch_loop body rest (errors @ [(shp, message e)])
            (w'\<lparr>logs := logs w' @ [FileError shp (message e)]\<rparr>))"

definition batch_run ::
  "(string \<Rightarrow> ('db, unit) act) \<Rightarrow> string list \<Rightarrow> ('db, (string \<times> string) list option) act" where
  "batch_run body files w =
     (case batch_loop body files [] w of
        (errors, w1) \<Rightarrow>
          if errors \<noteq> []
          then (Inr (Some errors), w1\<lparr>logs := logs w1 @ [ErrorCount (length errors), Done]\<rparr>)
          else (Inr None, w1\<lparr>logs := logs w1 @ [Done]\<rparr>))"

definition main ::
  "'db executor \<Rightarrow> reader \<Rightarrow> (string \<Rightarrow> string option) \<Rightarrow> (string \<Rightarrow> string \<Rightarrow> string)
     \<Rightarrow> string \<Rightarrow> string list \<Rightarrow> ('db, (string \<times> string) list option) act" where
  "main ex rd cpg_of rel_stem root files =
     and_then (log_event (RootDir root)) (\<lambda>_.
     and_then (ensure_postgis_and_helpers ex) (\<lambda>_.
     batch_run (ingest_one ex rd cpg_of rel_stem root) files))"

text \<open>The log events that open a file and those that report its failure.\<close>

fun is_start :: "log_event \<Rightarrow> bool" where
  "is_start (FileStart f) = True"
| "is_start _ = False"

fun is_failure :: "log_event \<Rightarrow> bool" where
  "is_failure (FileError f m) = True"
| "is_failure _ = False"

text \<open>An action is quiet when all it adds to the log is a list of events none of which
  opens a file or reports a failure.\<close>

definition quiet :: "('db, 'a) act \<Rightarrow> bool" where
  "quiet m =
     (\<forall>w. \<exists>evs. logs (snd (m w)) = logs w @ evs \<and> (\<forall>e\<in>set evs. \<not> is_start e \<and> \<not> is_failure e))"

text \<open>A small file system and reader for a concrete run: the files of one root
  directory, none with a sidecar file; \<^verbatim>\<open>/d/b.shp\<close> cannot be read, \<^verbatim>\<open>/d/c.shp\<close> has an
  attribute column \<^verbatim>\<open>GEOM\<close>, every other file has an attribute column \<^verbatim>\<open>ID\<close>.\<close>

definition demo_reader :: reader where
  "demo_reader path enc =
     (if path = ''/d/b.shp'' then Inl (Exn ''not recognized as a supported file format'')
      else if path = ''/d/c.shp''
      then Inr \<lparr>columns = [''GEOM'', ''geometry''], geometry = [Some (Geometry ''Polygon'' False)],
               crs = Some (Inr (Some 2154))\<rparr>
      else Inr \<lparr>columns = [''ID'', ''geometry''], geometry = [Some (Geometry ''Polygon'' False)],
               crs = Some (Inr (Some 2154))\<rparr>)"

definition demo_stem :: "string \<Rightarrow> string \<Rightarrow> string" where
  "demo_stem root shp = take (length shp - length root - 5) (drop (length root + 1) shp)"

definition no_sidecar :: "string \<Rightarrow> string option" where
  "no_sidecar path = None"

section \<open>Properties\<close>

subsection \<open>Facts about the string primitives and the normaliser\<close>

lemma ident_lower: "ident_char c \<Longrightarrow> lower_char c = c"
  by (auto simp: ident_char_def lower_char_def)

lemma set_re_sub_plus: "set (re_sub_plus C rep s) \<subseteq> set rep \<union> {c \<in> set s. \<not> C c}"
proof (induction C rep s rule: re_sub_plus.induct)
  case (1 C rep) then show ?case by simp
next
  case (2 C rep c cs)
  have "set (dropWhile C cs) \<subseteq> set cs" by (rule set_dropWhileD[THEN subsetI]) 
  with 2 show ?case by (auto)
qed

lemma re_sub_plus_id: "\<forall>c\<in>set s. \<not> C c \<Longrightarrow> re_sub_plus C rep s = s"
  by (induction s) auto

lemma no_double_sub: "\<not> has_double_underscore (re_sub_plus is_underscore ''_'' s)"
proof (induction is_underscore "''_''" s rule: re_sub_plus.induct)
  case 1 then show ?case by simp
next
  case (2 c cs)
  show ?case
  proof (cases "is_underscore c")
    case True
    show ?thesis
    proof (cases "dropWhile is_underscore cs")
      case Nil
      with True have "re_sub_plus is_underscore ''_'' (c # cs) = ''_''"
        by (simp del: dropWhile_eq_Nil_conv)
      then show ?thesis by simp
    next
      case (Cons d ds)
      then have "\<not> is_underscore d" using hd_dropWhile[of is_underscore cs] by auto
      then show ?thesis using True 2(1) Cons by simp
    qed
  next
    case False
    then show ?thesis using 2(2)
      by (cases cs) (auto)
  qed
qed

lemma has_double_sublist: "has_double_underscore s \<longleftrightarrow> sublist ''__'' s"
  by (induction s rule: has_double_underscore.induct) (auto simp: sublist_Cons_right is_underscore_def)

lemma sublist_strip: "sublist (py_strip C s) s"
proof -
  have "suffix (dropWhile C (rev (dropWhile C s))) (rev (dropWhile C s))" by (rule suffix_dropWhile)
  then have "prefix (py_strip C s) (dropWhile C s)" by (simp add: py_strip_def suffix_to_prefix)
  moreover have "suffix (dropWhile C s) s" by (rule suffix_dropWhile)
  ultimately show ?thesis by (meson sublist_order.order.trans prefix_imp_sublist suffix_imp_sublist)
qed

lemma sublist_slug_core:
  "sublist (slugify s) (re_sub_plus is_underscore ''_'' (re_sub_plus (\<lambda>c. \<not> ident_char c) ''_'' (py_lower s)))"
proof -
  have "prefix (take n xs) xs" for n and xs :: string by (rule take_is_prefix)
  then have "sublist (take n (py_strip C xs)) xs" for n C and xs :: string
    using sublist_strip[of C xs] prefix_imp_sublist sublist_order.order.trans by blast
  then show ?thesis unfolding slugify_def Let_def by blast
qed

lemma ident_underscore: "ident_char CHR ''_''" by (simp add: ident_char_def)

lemma core_ident: "list_all ident_char (re_sub_plus is_underscore ''_'' (re_sub_plus (\<lambda>c. \<not> ident_char c) ''_'' t))"
proof -
  have a: "set (re_sub_plus (\<lambda>c. \<not> ident_char c) ''_'' t) \<subseteq> Collect ident_char"
    using set_re_sub_plus[of "\<lambda>c. \<not> ident_char c" "''_''" t] ident_underscore by auto
  have "set (re_sub_plus is_underscore ''_'' u) \<subseteq> set ''_'' \<union> set u" for u
    using set_re_sub_plus[of is_underscore "''_''" u] by auto
  then have "set (re_sub_plus is_underscore ''_'' (re_sub_plus (\<lambda>c. \<not> ident_char c) ''_'' t)) \<subseteq> Collect ident_char"
    using a ident_underscore by fastforce
  then show ?thesis unfolding list_all_iff by blast
qed

lemma slug_ident: "list_all ident_char (slugify s)"
proof -
  have "set (slugify s) \<subseteq> set (re_sub_plus is_underscore ''_'' (re_sub_plus (\<lambda>c. \<not> ident_char c) ''_'' (py_lower s)))"
    using sublist_slug_core[of s] by (rule set_mono_sublist)
  then show ?thesis using core_ident[of "py_lower s"] unfolding list_all_iff by blast
qed

lemma slug_no_double: "\<not> has_double_underscore (slugify s)"
proof
  assume "has_double_underscore (slugify s)"
  then have "sublist ''__'' (slugify s)" by (simp only: has_double_sublist)
  then have "sublist ''__'' (re_sub_plus is_underscore ''_'' (re_sub_plus (\<lambda>c. \<not> ident_char c) ''_'' (py_lower s)))"
    using sublist_slug_core[of s] sublist_order.order.trans by blast
  then show False using no_double_sub by (simp only: has_double_sublist[symmetric])
qed

lemma slug_len: "length (slugify s) \<le> 63"
  by (simp add: slugify_def PG_NAME_MAXLEN_def Let_def)


lemma re_sub_us_id: "\<not> has_double_underscore s \<Longrightarrow> re_sub_plus is_underscore ''_'' s = s"
proof (induction s)
  case Nil then show ?case by simp
next
  case (Cons c cs)
  then have nd: "\<not> has_double_underscore cs" by (cases cs) auto
  show ?case
  proof (cases "is_underscore c")
    case True
    with Cons.prems have "cs = [] \<or> \<not> is_underscore (hd cs)" by (cases cs) auto
    then have "dropWhile is_underscore cs = cs" by (simp only: dropWhile_eq_self_iff)
    with True Cons.IH[OF nd] have "re_sub_plus is_underscore ''_'' (c # cs) = CHR ''_'' # cs" by simp
    moreover from True have "c = CHR ''_''" by (simp add: is_underscore_def)
    ultimately show ?thesis by simp
  next
    case False
    with Cons.IH[OF nd] show ?thesis by simp
  qed
qed

lemma no_double_snoc2: "\<not> has_double_underscore (zs @ [b, a]) \<Longrightarrow> \<not> (is_underscore b \<and> is_underscore a)"
  by (induction zs rule: has_double_underscore.induct) auto

lemma strip_tail:
  assumes "\<not> has_double_underscore y" and "y = [] \<or> \<not> is_underscore (hd y)"
  shows "py_strip is_underscore y = (if y \<noteq> [] \<and> is_underscore (last y) then butlast y else y)"
proof (cases y rule: rev_cases)
  case Nil then show ?thesis by (simp add: py_strip_def)
next
  case (snoc ys a)
  have d: "dropWhile is_underscore y = y" using assms(2) by (simp only: dropWhile_eq_self_iff)
  show ?thesis
  proof (cases "is_underscore a")
    case False
    then show ?thesis using snoc d by (simp add: py_strip_def)
  next
    case True
    have "dropWhile is_underscore (rev ys) = rev ys"
    proof (cases ys rule: rev_cases)
      case Nil then show ?thesis by simp
    next
      case (snoc zs b)
      with assms(1) \<open>y = ys @ [a]\<close> True have "\<not> is_underscore b"
        using no_double_snoc2[of zs b a] by simp
      then show ?thesis using snoc by simp
    qed
    then show ?thesis using snoc d True by (simp add: py_strip_def)
  qed
qed

lemma strip_hd: "py_strip C s = [] \<or> \<not> C (hd (py_strip C s))"
proof -
  let ?t = "dropWhile C s"
  have p: "prefix (py_strip C s) ?t"
    using suffix_dropWhile[of C "rev ?t"] by (simp add: py_strip_def suffix_to_prefix)
  have t: "?t = [] \<or> \<not> C (hd ?t)" using hd_dropWhile[of C s] by blast
  show ?thesis
  proof (cases "py_strip C s")
    case Nil then show ?thesis by simp
  next
    case (Cons a as)
    with p obtain r where "?t = a # as @ r" by (auto simp: prefix_def)
    with t Cons show ?thesis by auto
  qed
qed

lemma slug_hd: "slugify s = [] \<or> \<not> is_underscore (hd (slugify s))"
proof -
  define u where "u = py_strip is_underscore (re_sub_plus is_underscore ''_'' (re_sub_plus (\<lambda>c. \<not> ident_char c) ''_'' (py_lower s)))"
  have s: "slugify s = take 63 u" by (simp add: slugify_def u_def PG_NAME_MAXLEN_def Let_def)
  have "u = [] \<or> \<not> is_underscore (hd u)" unfolding u_def by (rule strip_hd)
  then show ?thesis unfolding s by (cases u) auto
qed

lemma slugify_on_normalised:
  assumes "list_all ident_char y" "\<not> has_double_underscore y" "y = [] \<or> \<not> is_underscore (hd y)" "length y \<le> 63"
  shows "slugify y = (if y \<noteq> [] \<and> is_underscore (last y) then butlast y else y)"
proof -
  have 1: "py_lower y = y" using assms(1) by (simp add: py_lower_def list_all_iff ident_lower map_idI)
  have 2: "re_sub_plus (\<lambda>c. \<not> ident_char c) ''_'' y = y"
    using assms(1) by (intro re_sub_plus_id) (simp add: list_all_iff)
  have 3: "re_sub_plus is_underscore ''_'' y = y" using assms(2) by (rule re_sub_us_id)
  have 4: "slugify y = take 63 (py_strip is_underscore y)"
    by (simp add: slugify_def Let_def 1 2 3 PG_NAME_MAXLEN_def)
  show ?thesis using assms(4) unfolding 4 strip_tail[OF assms(2,3)]
    by auto
qed


subsection \<open>Claims about the scalar normaliser\<close>

text \<open>
  Claim C4. For every input string the output of \<^const>\<open>slugify\<close> matches
  \<^verbatim>\<open>^[a-z0-9_]{0,63}$\<close> (the empty string included) and contains no two consecutive
  underscores.
\<close>

theorem C4_slugify_shape:
  "matches_ident_0_63 (slugify s) \<and> \<not> has_double_underscore (slugify s)"
  by (simp add: matches_ident_0_63_def slug_ident slug_no_double slug_len)

text \<open>
  Claim C5, as stated: \<^const>\<open>slugify\<close> applied to its own output returns the output
  unchanged. It fails when the cut at 63 characters falls right after an underscore:
  the input below (62 letters, an underscore, one more letter) is normalised to 62
  letters and a trailing underscore, and normalising that strips the underscore.
\<close>

theorem C5_slugify_not_idempotent:
  "slugify (slugify ''aaaaaaaaaaaaaaaaaaaaaaaaaaaaaaaaaaaaaaaaaaaaaaaaaaaaaaaaaaaaaa_b'')
     \<noteq> slugify ''aaaaaaaaaaaaaaaaaaaaaaaaaaaaaaaaaaaaaaaaaaaaaaaaaaaaaaaaaaaaaa_b''"
  by code_simp

text \<open>
  Claim C5, amended: applying \<^const>\<open>slugify\<close> to its own output returns the output
  unchanged exactly when the output does not end with an underscore; when it does (the
  truncation cut a longer name right after an underscore), the second application
  removes that one trailing underscore and nothing else.
\<close>

theorem C5_slugify_twice:
  "slugify (slugify s) =
     (if slugify s \<noteq> [] \<and> last (slugify s) = CHR ''_'' then butlast (slugify s)
      else slugify s)"
  using slugify_on_normalised[OF slug_ident slug_no_double slug_hd slug_len, of s]
  by (simp add: is_underscore_def)

subsection \<open>Facts about the column sanitiser\<close>














subsection \<open>Facts about the geometry type classifiers\<close>

lemma no_Z_after_replace: "CHR ''Z'' \<notin> set (py_replace ''Z'' [] s)"
  by (induction s) auto

lemma endswith_Z_mem: "endswith u ''Z'' \<Longrightarrow> CHR ''Z'' \<in> set u"
proof -
  assume "endswith u ''Z''"
  then have "drop (length u - 1) u = ''Z''" by (simp add: endswith_def)
  then have "CHR ''Z'' \<in> set (drop (length u - 1) u)" by simp
  then show ?thesis by (rule in_set_dropD)
qed

lemma strip_z_no_Z_end: "\<not> endswith (strip_z t) ''Z''"
proof (cases "endswith t ''ZM'' \<or> endswith t ''Z''")
  case True
  then have "strip_z t = py_replace ''Z'' [] (py_replace ''ZM'' [] t)" by (simp add: strip_z_def)
  then show ?thesis using no_Z_after_replace endswith_Z_mem by metis
next
  case False
  then show ?thesis by (simp add: strip_z_def)
qed

lemma endswith_snoc_Z: "endswith (t @ ''Z'') ''Z''"
  by (simp add: endswith_def)

lemma set_types: "set (py_set (map strip_z (py_set (map py_upper (dropna (geom_type g)))))) = base_types g"
  by (auto simp: py_set_def base_types_def)

text \<open>
  Claim C1. The batch classifier implements the three-way policy: no base type gives
  the generic type with the mixed flag, exactly one base type gives that type without
  the flag, several base types give the generic type with the flag; and in each case
  the returned name ends with the Z qualifier exactly when the Z flag is set.
\<close>

theorem C1_geom_type_for_column:
  fixes g :: gdf and z :: bool
  defines "r \<equiv> geom_type_for_column g z"
  shows "(base_types g = {} \<longrightarrow> r = (if z then ''GEOMETRYZ'' else ''GEOMETRY'', True))
     \<and> (\<forall>t. base_types g = {t} \<longrightarrow> r = (if z then t @ ''Z'' else t, False))
     \<and> (1 < card (base_types g) \<longrightarrow> r = (if z then ''GEOMETRYZ'' else ''GEOMETRY'', True))
     \<and> (endswith (fst r) ''Z'' \<longleftrightarrow> z)"
proof -
  define ts where "ts = py_set (map strip_z (py_set (map py_upper (dropna (geom_type g)))))"
  have s: "set ts = base_types g" unfolding ts_def by (rule set_types)
  have d: "distinct ts" by (simp add: ts_def py_set_def)
  have len: "length ts = card (base_types g)" using distinct_card[OF d] s by simp
  have r: "r = (if length ts = 0 then (if z then ''GEOMETRYZ'' else ''GEOMETRY'', True)
         else if length ts = 1 then (if z then hd ts @ ''Z'' else hd ts, False)
         else (if z then ''GEOMETRYZ'' else ''GEOMETRY'', True))"
    by (simp add: r_def geom_type_for_column_def ts_def Let_def)
  have 1: "base_types g = {} \<longrightarrow> r = (if z then ''GEOMETRYZ'' else ''GEOMETRY'', True)"
    using r s by auto
  have 2: "\<forall>t. base_types g = {t} \<longrightarrow> r = (if z then t @ ''Z'' else t, False)"
  proof (intro allI impI)
    fix t assume b: "base_types g = {t}"
    then have "length ts = 1" using len by simp
    then obtain u where u: "ts = [u]" by (cases ts) auto
    with s b have "u = t" by auto
    with u r show "r = (if z then t @ ''Z'' else t, False)" by simp
  qed
  have 3: "1 < card (base_types g) \<longrightarrow> r = (if z then ''GEOMETRYZ'' else ''GEOMETRY'', True)"
    using r len by auto
  have 4: "endswith (fst r) ''Z'' \<longleftrightarrow> z"
  proof (cases "length ts = 1")
    case True
    then obtain u where u: "ts = [u]" by (cases ts) auto
    then have "u \<in> base_types g" using s by auto
    then have "\<not> endswith u ''Z''" using strip_z_no_Z_end by (auto simp: base_types_def)
    then show ?thesis using r u endswith_snoc_Z by simp
  next
    case False
    then have "fst r = (if z then ''GEOMETRYZ'' else ''GEOMETRY'')" using r by simp
    then show ?thesis by (simp add: endswith_def)
  qed
  from 1 2 3 4 show ?thesis by blast
qed

theorem C1_geom_type_for_column_witness:
  "base_types \<lparr>columns = [''geometry''], geometry = [], crs = None\<rparr> = {}
   \<and> geom_type_for_column \<lparr>columns = [''geometry''], geometry = [], crs = None\<rparr> False
        = (''GEOMETRY'', True)
   \<and> base_types \<lparr>columns = [''geometry''],
        geometry = [Some (Geometry ''Polygon'' True), None, Some (Geometry ''Polygon'' False)],
        crs = None\<rparr> = {''POLYGON''}
   \<and> geom_type_for_column \<lparr>columns = [''geometry''],
        geometry = [Some (Geometry ''Polygon'' True), None, Some (Geometry ''Polygon'' False)],
        crs = None\<rparr> True = (''POLYGONZ'', False)
   \<and> 1 < card (base_types \<lparr>columns = [''geometry''],
        geometry = [Some (Geometry ''Polygon'' False), Some (Geometry ''Point'' False)],
        crs = None\<rparr>)
   \<and> geom_type_for_column \<lparr>columns = [''geometry''],
        geometry = [Some (Geometry ''Polygon'' False), Some (Geometry ''Point'' False)],
        crs = None\<rparr> False = (''GEOMETRY'', True)"
proof -
  define g0 :: gdf where "g0 = \<lparr>columns = [''geometry''], geometry = [], crs = None\<rparr>"
  define g1 :: gdf where "g1 = \<lparr>columns = [''geometry''],
        geometry = [Some (Geometry ''Polygon'' True), None, Some (Geometry ''Polygon'' False)],
        crs = None\<rparr>"
  define g2 :: gdf where "g2 = \<lparr>columns = [''geometry''],
        geometry = [Some (Geometry ''Polygon'' False), Some (Geometry ''Point'' False)],
        crs = None\<rparr>"
  have up1: "py_upper ''Polygon'' = ''POLYGON''" by code_simp
  have up2: "py_upper ''Point'' = ''POINT''" by code_simp
  have st1: "strip_z ''POLYGON'' = ''POLYGON''" by code_simp
  have st2: "strip_z ''POINT'' = ''POINT''" by code_simp
  have b0: "base_types g0 = {}" by (simp add: base_types_def geom_type_def g0_def)
  have b1: "base_types g1 = {''POLYGON''}"
    by (simp add: base_types_def geom_type_def g1_def up1 st1)
  have b2: "base_types g2 = {''POLYGON'', ''POINT''}"
    by (simp add: base_types_def geom_type_def g2_def up1 up2 st1 st2)
  have c2: "1 < card (base_types g2)" unfolding b2 by simp
  have r0: "geom_type_for_column g0 False = (''GEOMETRY'', True)"
    using C1_geom_type_for_column[of g0 False] b0 by simp
  have r1: "geom_type_for_column g1 True = (''POLYGONZ'', False)"
    using C1_geom_type_for_column[of g1 True] b1 by simp
  have r2: "geom_type_for_column g2 False = (''GEOMETRY'', True)"
    using C1_geom_type_for_column[of g2 False] c2 by simp
  show ?thesis using b0 b1 c2 r0 r1 r2 unfolding g0_def g1_def g2_def by blast
qed

lemma char_of_eq_nat: "n < 256 \<Longrightarrow> char_of n = X \<longleftrightarrow> n = (of_char X :: nat)"
  by (auto simp: char_of_eq_iff take_bit_eq_mod)

lemma upper_char_capital:
  assumes "capital X"
  shows "upper_char c = X \<longleftrightarrow> same_letter c X"
proof -
  define n where "n = (of_char c :: nat)"
  define x where "x = (of_char X :: nat)"
  have n: "n < 256" unfolding n_def by simp
  have x: "65 \<le> x" "x \<le> 90" using assms by (simp_all add: capital_def x_def)
  have eq: "c = X \<longleftrightarrow> n = x" unfolding n_def x_def by simp
  have sl: "same_letter c X \<longleftrightarrow> n = x \<or> n = x + 32"
    using x eq by (auto simp: same_letter_def Let_def n_def[symmetric] x_def[symmetric])
  have u: "upper_char c =
      (if (97 \<le> n \<and> n \<le> 122) \<or> (224 \<le> n \<and> n \<le> 254 \<and> n \<noteq> 247) then char_of (n - 32) else c)"
    unfolding upper_char_def Let_def n_def by (rule refl)
  show ?thesis
  proof (cases "(97 \<le> n \<and> n \<le> 122) \<or> (224 \<le> n \<and> n \<le> 254 \<and> n \<noteq> 247)")
    case True
    then have "upper_char c = char_of (n - 32)" by (simp only: u if_True)
    moreover have "char_of (n - 32) = X \<longleftrightarrow> n - 32 = x"
      unfolding x_def using n by (intro char_of_eq_nat) simp
    ultimately show ?thesis using True x sl by auto
  next
    case False
    then have "upper_char c = c" by (simp only: u if_False)
    then show ?thesis using False x sl eq by auto
  qed
qed

lemma py_upper_word:
  "list_all capital W \<Longrightarrow> py_upper t = W \<longleftrightarrow> equal_ignoring_case t W"
proof (induction t arbitrary: W)
  case Nil
  then show ?case by (auto simp: py_upper_def equal_ignoring_case_def)
next
  case (Cons c t)
  show ?case
  proof (cases W)
    case Nil
    then show ?thesis by (simp add: py_upper_def equal_ignoring_case_def)
  next
    case (Cons X W')
    with Cons.prems have cx: "capital X" and cw: "list_all capital W'" by simp_all
    from Cons.IH[OF cw] have "map upper_char t = W' \<longleftrightarrow> list_all2 same_letter t W'"
      by (simp add: py_upper_def equal_ignoring_case_def)
    then show ?thesis using upper_char_capital[OF cx, of c] Cons
      by (simp add: py_upper_def equal_ignoring_case_def)
  qed
qed

lemma capital_words:
  "list_all capital ''POLYGON''" "list_all capital ''MULTIPOLYGON''"
  "list_all capital ''LINESTRING''" "list_all capital ''MULTILINESTRING''"
  "list_all capital ''POINT''" "list_all capital ''MULTIPOINT''"
  by (simp_all add: capital_def)

lemma fams_meet:
  assumes "list_all capital A" "list_all capital B"
  shows "set (map py_upper (dropna (geom_type g))) \<inter> {A, B} \<noteq> {} \<longleftrightarrow> has_type g [A, B]"
proof -
  have "set (map py_upper (dropna (geom_type g))) \<inter> {A, B} \<noteq> {}
        \<longleftrightarrow> (\<exists>t\<in>set (dropna (geom_type g)). py_upper t = A \<or> py_upper t = B)"
    by auto
  also have "\<dots> \<longleftrightarrow> (\<exists>t\<in>set (dropna (geom_type g)). equal_ignoring_case t A \<or> equal_ignoring_case t B)"
    by (simp add: py_upper_word[OF assms(1)] py_upper_word[OF assms(2)])
  also have "\<dots> \<longleftrightarrow> has_type g [A, B]" by (auto simp: has_type_def)
  finally show ?thesis .
qed

text \<open>
  Claim C10. The upload-path classifier applies a fixed priority, not a mixed-flag
  policy: a collection with a geometry of a polygon variant (Polygon or MultiPolygon,
  letter case apart) is classified MULTIPOLYGON, whatever else it holds; otherwise one
  with a line variant is classified MULTILINESTRING; otherwise one with a point variant
  is classified MULTIPOINT; every other collection, the empty one included, is
  classified GEOMETRY.
\<close>

theorem C10_geom_family_priority:
  fixes g :: gdf
  defines "poly \<equiv> has_type g [''POLYGON'', ''MULTIPOLYGON'']"
      and "line \<equiv> has_type g [''LINESTRING'', ''MULTILINESTRING'']"
      and "point \<equiv> has_type g [''POINT'', ''MULTIPOINT'']"
  shows "(poly \<longrightarrow> geom_family g = ''MULTIPOLYGON'')
       \<and> (\<not> poly \<and> line \<longrightarrow> geom_family g = ''MULTILINESTRING'')
       \<and> (\<not> poly \<and> \<not> line \<and> point \<longrightarrow> geom_family g = ''MULTIPOINT'')
       \<and> (\<not> poly \<and> \<not> line \<and> \<not> point \<longrightarrow> geom_family g = ''GEOMETRY'')"
proof -
  have p: "set (map py_upper (dropna (geom_type g))) \<inter> {''POLYGON'', ''MULTIPOLYGON''} \<noteq> {} \<longleftrightarrow> poly"
    unfolding poly_def by (rule fams_meet) (rule capital_words)+
  have l: "set (map py_upper (dropna (geom_type g))) \<inter> {''LINESTRING'', ''MULTILINESTRING''} \<noteq> {} \<longleftrightarrow> line"
    unfolding line_def by (rule fams_meet) (rule capital_words)+
  have q: "set (map py_upper (dropna (geom_type g))) \<inter> {''POINT'', ''MULTIPOINT''} \<noteq> {} \<longleftrightarrow> point"
    unfolding point_def by (rule fams_meet) (rule capital_words)+
  have "geom_family g =
     (if poly then ''MULTIPOLYGON'' else if line then ''MULTILINESTRING''
      else if point then ''MULTIPOINT'' else ''GEOMETRY'')"
    unfolding geom_family_def Let_def by (simp only: p l q)
  then show ?thesis by simp
qed

theorem C10_geom_family_priority_witness:
  "has_type (layer [''Point'', ''Polygon'', ''LineString'']) [''POLYGON'', ''MULTIPOLYGON'']
   \<and> geom_family (layer [''Point'', ''Polygon'', ''LineString'']) = ''MULTIPOLYGON''
   \<and> \<not> has_type (layer [''Point'', ''MultiLineString'']) [''POLYGON'', ''MULTIPOLYGON'']
   \<and> has_type (layer [''Point'', ''MultiLineString'']) [''LINESTRING'', ''MULTILINESTRING'']
   \<and> geom_family (layer [''Point'', ''MultiLineString'']) = ''MULTILINESTRING''
   \<and> has_type (layer [''Point'']) [''POINT'', ''MULTIPOINT'']
   \<and> geom_family (layer [''Point'']) = ''MULTIPOINT''
   \<and> geom_family (layer [''GeometryCollection'']) = ''GEOMETRY''
   \<and> geom_family (layer []) = ''GEOMETRY''"
proof -
  have a1: "has_type (layer [''Point'', ''Polygon'', ''LineString'']) [''POLYGON'', ''MULTIPOLYGON'']"
    by code_simp
  have b1: "\<not> has_type (layer [''Point'', ''MultiLineString'']) [''POLYGON'', ''MULTIPOLYGON'']"
    by code_simp
  have b2: "has_type (layer [''Point'', ''MultiLineString'']) [''LINESTRING'', ''MULTILINESTRING'']"
    by code_simp
  have c1: "\<not> has_type (layer [''Point'']) [''POLYGON'', ''MULTIPOLYGON'']" by code_simp
  have c2: "\<not> has_type (layer [''Point'']) [''LINESTRING'', ''MULTILINESTRING'']" by code_simp
  have c3: "has_type (layer [''Point'']) [''POINT'', ''MULTIPOINT'']" by code_simp
  have d1: "\<not> has_type (layer [''GeometryCollection'']) [''POLYGON'', ''MULTIPOLYGON'']" by code_simp
  have d2: "\<not> has_type (layer [''GeometryCollection'']) [''LINESTRING'', ''MULTILINESTRING'']" by code_simp
  have d3: "\<not> has_type (layer [''GeometryCollection'']) [''POINT'', ''MULTIPOINT'']" by code_simp
  have e: "\<not> has_type (layer []) ws" for ws by (simp add: has_type_def layer_def geom_type_def)
  have A: "geom_family (layer [''Point'', ''Polygon'', ''LineString'']) = ''MULTIPOLYGON''"
    using C10_geom_family_priority[of "layer [''Point'', ''Polygon'', ''LineString'']"] a1 by blast
  have B: "geom_family (layer [''Point'', ''MultiLineString'']) = ''MULTILINESTRING''"
    using C10_geom_family_priority[of "layer [''Point'', ''MultiLineString'']"] b1 b2 by blast
  have C: "geom_family (layer [''Point'']) = ''MULTIPOINT''"
    using C10_geom_family_priority[of "layer [''Point'']"] c1 c2 c3 by blast
  have D: "geom_family (layer [''GeometryCollection'']) = ''GEOMETRY''"
    using C10_geom_family_priority[of "layer [''GeometryCollection'']"] d1 d2 d3 by blast
  have E: "geom_family (layer []) = ''GEOMETRY''"
    using C10_geom_family_priority[of "layer []"] e by blast
  from a1 b1 b2 c3 A B C D E show ?thesis by blast
qed

subsection \<open>The encoding resolver\<close>

lemma robust_loop_spec:
  "\<exists>att. robust_loop rd path encs tried = (tried @ att, rd path (last att)) \<and> att \<noteq> []
      \<and> prefix att (map Some encs @ [None])
      \<and> (\<forall>a\<in>set (butlast att). isl (rd path a))
      \<and> (isl (rd path (last att)) \<longrightarrow> att = map Some encs @ [None])"
proof (induction encs arbitrary: tried)
  case Nil
  show ?case by (intro exI[of _ "[None]"]) simp
next
  case (Cons enc encs)
  show ?case
  proof (cases "rd path (Some enc)")
    case (Inr g)
    then show ?thesis by (intro exI[of _ "[Some enc]"]) simp
  next
    case (Inl e)
    from Cons.IH[of "tried @ [Some enc]"] obtain att where
      att: "robust_loop rd path encs (tried @ [Some enc]) = ((tried @ [Some enc]) @ att, rd path (last att))"
        "att \<noteq> []" "prefix att (map Some encs @ [None])"
        "\<forall>a\<in>set (butlast att). isl (rd path a)"
        "isl (rd path (last att)) \<longrightarrow> att = map Some encs @ [None]" by blast
    show ?thesis
    proof (intro exI[of _ "Some enc # att"] conjI)
      show "robust_loop rd path (enc # encs) tried = (tried @ Some enc # att, rd path (last (Some enc # att)))"
        using Inl att(1,2) by simp
      show "Some enc # att \<noteq> []" by simp
      show "prefix (Some enc # att) (map Some (enc # encs) @ [None])" using att(3) by simp
      show "\<forall>a\<in>set (butlast (Some enc # att)). isl (rd path a)" using att(2,4) Inl by simp
      show "isl (rd path (last (Some enc # att))) \<longrightarrow> Some enc # att = map Some (enc # encs) @ [None]"
        using att(2,5) by simp
    qed
  qed
qed

lemma try_loop_spec:
  "\<exists>att. fst (try_loop rd path trials encs last_err tried) = tried @ att \<and> att \<noteq> []
      \<and> prefix att (map Some encs @ [None])
      \<and> (\<forall>a\<in>set (butlast att). isl (rd path a))
      \<and> (\<not> isl (rd path (last att)) \<longrightarrow>
            snd (try_loop rd path trials encs last_err tried) = rd path (last att))
      \<and> (isl (rd path (last att)) \<longrightarrow> att = map Some encs @ [None]
            \<and> snd (try_loop rd path trials encs last_err tried)
                = Inl (Exn (read_failure_message trials (final_err rd path encs last_err))))"
proof (induction encs arbitrary: tried last_err)
  case Nil
  show ?case by (intro exI[of _ "[None]"]) (auto simp: final_err_def split: sum.splits)
next
  case (Cons enc encs)
  show ?case
  proof (cases "rd path (Some enc)")
    case (Inr g)
    then show ?thesis by (intro exI[of _ "[Some enc]"]) simp
  next
    case (Inl e)
    let ?t = "try_loop rd path trials encs (Some e) (tried @ [Some enc])"
    from Cons.IH[of "Some e" "tried @ [Some enc]"] obtain att where
      att: "fst ?t = (tried @ [Some enc]) @ att"
        "att \<noteq> []" "prefix att (map Some encs @ [None])"
        "\<forall>a\<in>set (butlast att). isl (rd path a)"
        "\<not> isl (rd path (last att)) \<longrightarrow> snd ?t = rd path (last att)"
        "isl (rd path (last att)) \<longrightarrow> att = map Some encs @ [None]
            \<and> snd ?t = Inl (Exn (read_failure_message trials (final_err rd path encs (Some e))))"
      by blast
    have step: "try_loop rd path trials (enc # encs) last_err tried = ?t" using Inl by simp
    have fe: "final_err rd path (enc # encs) last_err = final_err rd path encs (Some e)"
      using Inl by (simp add: final_err_def)
    show ?thesis
    proof (intro exI[of _ "Some enc # att"] conjI)
      show "fst (try_loop rd path trials (enc # encs) last_err tried) = tried @ Some enc # att"
        using att(1) step by simp
      show "Some enc # att \<noteq> []" by simp
      show "prefix (Some enc # att) (map Some (enc # encs) @ [None])" using att(3) by simp
      show "\<forall>a\<in>set (butlast (Some enc # att)). isl (rd path a)" using att(2,4) Inl by simp
      show "\<not> isl (rd path (last (Some enc # att))) \<longrightarrow>
            snd (try_loop rd path trials (enc # encs) last_err tried) = rd path (last (Some enc # att))"
        using att(2,5) step by simp
      show "isl (rd path (last (Some enc # att))) \<longrightarrow> Some enc # att = map Some (enc # encs) @ [None]
            \<and> snd (try_loop rd path trials (enc # encs) last_err tried)
                = Inl (Exn (read_failure_message trials (final_err rd path (enc # encs) last_err)))"
        using att(2,6) step fe by simp
    qed
  qed
qed

lemma all_fail_last:
  assumes "att \<noteq> []" "prefix att full" "\<forall>a\<in>set full. isl (rd path a)"
  shows "isl (rd path (last att))"
proof -
  have "last att \<in> set att" using assms(1) by simp
  moreover have "set att \<subseteq> set full" using assms(2) by (rule set_mono_prefix)
  ultimately show ?thesis using assms(3) by blast
qed

lemma sublist_join: "x \<in> set xs \<Longrightarrow> sublist x (py_join sep xs)"
proof (induction sep xs rule: py_join.induct)
  case (1 sep) then show ?case by simp
next
  case (2 sep x') then show ?case by simp
next
  case (3 sep a b ys)
  show ?case
  proof (cases "x = a")
    case True
    then show ?thesis by simp
  next
    case False
    with 3 have "sublist x (py_join sep (b # ys))" by simp
    then obtain p s where "py_join sep (b # ys) = p @ x @ s" by (auto simp: sublist_def)
    then have "py_join sep (a # b # ys) = (a @ sep @ p) @ x @ s" by simp
    then show ?thesis unfolding sublist_def by blast
  qed
qed

lemma message_names_encodings:
  assumes "e \<in> set trials"
  shows "sublist (py_repr_str e) (read_failure_message trials err)"
proof -
  have "sublist (py_repr_str e) (py_join '', '' (map py_repr_str trials))"
    using assms by (intro sublist_join) simp
  then obtain p s where "py_join '', '' (map py_repr_str trials) = p @ py_repr_str e @ s"
    by (auto simp: sublist_def)
  then have "read_failure_message trials err =
      (''Impossible de lire le SHP (encodings test'' @ [CHR 0xE9] @ ''s: '' @ ''['' @ p) @ py_repr_str e
        @ (s @ '']'' @ ''). Derni'' @ [CHR 0xE8] @ ''re erreur: '' @ py_str_exn_opt err)"
    by (simp add: read_failure_message_def py_repr_list_def)
  then show ?thesis unfolding sublist_def by blast
qed

lemma truthy_trials:
  "truthy_strs [h, Some ''utf-8'', Some ''latin-1'', Some ''cp1252'']
     = truthy_strs [h] @ [''utf-8'', ''latin-1'', ''cp1252'']"
  by (cases h) (auto simp: truthy_strs_def)

text \<open>
  Claim C2, amended. Both resolvers call the reader with the hint (when it is present
  and not empty), then with utf-8, latin-1 and cp1252 in this order, then once without
  an encoding, and stop at the first call that succeeds: the calls made are an initial
  segment of that list, every call but the last failed, a failed last call means that
  the whole list was tried, and a successful last call gives the result. When every
  candidate fails, the upload resolver raises an error whose message lists every
  attempted encoding, followed by the message of the error of the last encoding attempt;
  the batch resolver raises the error of the auto-detect call unchanged, without adding
  the encodings it tried. The path is in either error only where the reader's own
  message has it.
\<close>

theorem C2_encoding_resolver_order:
  fixes rd :: reader and path :: string and cpg hint :: "string option"
  defines "tb \<equiv> truthy_strs [enc_hint_of cpg] @ [''utf-8'', ''latin-1'', ''cp1252'']"
      and "tu \<equiv> truthy_strs [hint] @ [''utf-8'', ''latin-1'', ''cp1252'']"
      and "rb \<equiv> read_shp_robust rd path cpg"
      and "ru \<equiv> read_gdf_try_encodings rd path hint"
  shows "(fst rb \<noteq> [] \<and> prefix (fst rb) (map Some tb @ [None])
          \<and> (\<forall>a\<in>set (butlast (fst rb)). isl (rd path a))
          \<and> (isl (rd path (last (fst rb))) \<longrightarrow> fst rb = map Some tb @ [None])
          \<and> snd rb = rd path (last (fst rb)))
       \<and> (fst ru \<noteq> [] \<and> prefix (fst ru) (map Some tu @ [None])
          \<and> (\<forall>a\<in>set (butlast (fst ru)). isl (rd path a))
          \<and> (isl (rd path (last (fst ru))) \<longrightarrow> fst ru = map Some tu @ [None])
          \<and> (\<not> isl (rd path (last (fst ru))) \<longrightarrow> snd ru = rd path (last (fst ru))))
       \<and> ((\<forall>a\<in>set (map Some tb @ [None]). isl (rd path a)) \<longrightarrow>
             fst rb = map Some tb @ [None] \<and> snd rb = rd path None)
       \<and> ((\<forall>a\<in>set (map Some tu @ [None]). isl (rd path a)) \<longrightarrow>
             fst ru = map Some tu @ [None]
             \<and> snd ru = Inl (Exn (read_failure_message tu (Some (projl (rd path (Some ''cp1252''))))))
             \<and> (\<forall>e\<in>set tu. sublist (py_repr_str e) (message (projl (snd ru)))))"
proof -
  have rb: "rb = robust_loop rd path tb []"
    by (simp add: rb_def read_shp_robust_def tb_def truthy_trials Let_def)
  have ru: "ru = try_loop rd path tu tu None []"
    by (simp add: ru_def read_gdf_try_encodings_def tu_def Let_def)
  from robust_loop_spec[of rd path tb "[]"] obtain ab where
    ab: "rb = (ab, rd path (last ab))" "ab \<noteq> []" "prefix ab (map Some tb @ [None])"
        "\<forall>a\<in>set (butlast ab). isl (rd path a)"
        "isl (rd path (last ab)) \<longrightarrow> ab = map Some tb @ [None]"
    unfolding rb by auto
  from try_loop_spec[of rd path tu tu None "[]"] obtain au where
    au: "fst ru = au" "au \<noteq> []" "prefix au (map Some tu @ [None])"
        "\<forall>a\<in>set (butlast au). isl (rd path a)"
        "\<not> isl (rd path (last au)) \<longrightarrow> snd ru = rd path (last au)"
        "isl (rd path (last au)) \<longrightarrow> au = map Some tu @ [None]
            \<and> snd ru = Inl (Exn (read_failure_message tu (final_err rd path tu None)))"
    unfolding ru by auto
  have fe: "final_err rd path tu None = Some (projl (rd path (Some ''cp1252'')))"
    by (simp add: final_err_def tu_def)
  have 1: "fst rb \<noteq> [] \<and> prefix (fst rb) (map Some tb @ [None])
          \<and> (\<forall>a\<in>set (butlast (fst rb)). isl (rd path a))
          \<and> (isl (rd path (last (fst rb))) \<longrightarrow> fst rb = map Some tb @ [None])
          \<and> snd rb = rd path (last (fst rb))"
    using ab by simp
  have 2: "fst ru \<noteq> [] \<and> prefix (fst ru) (map Some tu @ [None])
          \<and> (\<forall>a\<in>set (butlast (fst ru)). isl (rd path a))
          \<and> (isl (rd path (last (fst ru))) \<longrightarrow> fst ru = map Some tu @ [None])
          \<and> (\<not> isl (rd path (last (fst ru))) \<longrightarrow> snd ru = rd path (last (fst ru)))"
    using au by simp
  have 3: "(\<forall>a\<in>set (map Some tb @ [None]). isl (rd path a)) \<longrightarrow>
             fst rb = map Some tb @ [None] \<and> snd rb = rd path None"
  proof
    assume all: "\<forall>a\<in>set (map Some tb @ [None]). isl (rd path a)"
    have "isl (rd path (last ab))"
      using all_fail_last[of ab "map Some tb @ [None]" rd path] ab(2,3) all by blast
    with ab(5) have "ab = map Some tb @ [None]" by simp
    with ab(1) show "fst rb = map Some tb @ [None] \<and> snd rb = rd path None" by simp
  qed
  have 4: "(\<forall>a\<in>set (map Some tu @ [None]). isl (rd path a)) \<longrightarrow>
             fst ru = map Some tu @ [None]
             \<and> snd ru = Inl (Exn (read_failure_message tu (Some (projl (rd path (Some ''cp1252''))))))
             \<and> (\<forall>e\<in>set tu. sublist (py_repr_str e) (message (projl (snd ru))))"
  proof
    assume all: "\<forall>a\<in>set (map Some tu @ [None]). isl (rd path a)"
    have "isl (rd path (last au))"
      using all_fail_last[of au "map Some tu @ [None]" rd path] au(2,3) all by blast
    with au(6) have f: "au = map Some tu @ [None]"
      and s: "snd ru = Inl (Exn (read_failure_message tu (final_err rd path tu None)))" by simp_all
    have "\<forall>e\<in>set tu. sublist (py_repr_str e) (message (projl (snd ru)))"
      unfolding s using message_names_encodings by simp
    with f s au(1) fe
    show "fst ru = map Some tu @ [None]
             \<and> snd ru = Inl (Exn (read_failure_message tu (Some (projl (rd path (Some ''cp1252''))))))
             \<and> (\<forall>e\<in>set tu. sublist (py_repr_str e) (message (projl (snd ru))))" by simp
  qed
  from 1 2 3 4 show ?thesis by blast
qed

text \<open>
  Claim C2, as stated: when every attempt fails, the resolver fails with a read error
  that identifies both the file path and all attempted encodings. With a reader that
  cannot open the file and says which, the batch resolver makes its five calls and
  raises the error of the last one as it is: the message has the path and none of the
  encodings tried.
\<close>

theorem C2_batch_error_omits_encodings:
  "fst (read_shp_robust unreadable ''/data/zones.shp'' (Some ''CP1252''))
     = [Some ''cp1252'', Some ''utf-8'', Some ''latin-1'', Some ''cp1252'', None]
   \<and> snd (read_shp_robust unreadable ''/data/zones.shp'' (Some ''CP1252''))
     = Inl (Exn ''/data/zones.shp not recognized as a supported file format'')
   \<and> \<not> sublist ''utf-8'' ''/data/zones.shp not recognized as a supported file format''
   \<and> \<not> sublist ''latin-1'' ''/data/zones.shp not recognized as a supported file format''
   \<and> \<not> sublist ''cp1252'' ''/data/zones.shp not recognized as a supported file format''"
  by code_simp

theorem C2_encoding_resolver_order_witness:
  "fst (read_shp_robust (always_fails ''invalid start byte'') ''/data/zones.shp'' (Some ''CP1252''))
       = [Some ''cp1252'', Some ''utf-8'', Some ''latin-1'', Some ''cp1252'', None]
   \<and> snd (read_shp_robust (always_fails ''invalid start byte'') ''/data/zones.shp'' (Some ''CP1252''))
       = Inl (Exn ''invalid start byte'')
   \<and> snd (read_gdf_try_encodings (always_fails ''invalid start byte'') ''/data/zones.shp'' (Some ''cp1252''))
       = Inl (Exn (read_failure_message [''cp1252'', ''utf-8'', ''latin-1'', ''cp1252'']
                     (Some (Exn ''invalid start byte''))))
   \<and> \<not> isl (reads_only ''latin-1'' \<lparr>columns = [''geometry''], geometry = [], crs = None\<rparr> ''/data/zones.shp''
          (last (fst (read_gdf_try_encodings
             (reads_only ''latin-1'' \<lparr>columns = [''geometry''], geometry = [], crs = None\<rparr>)
             ''/data/zones.shp'' None))))
   \<and> snd (read_gdf_try_encodings
             (reads_only ''latin-1'' \<lparr>columns = [''geometry''], geometry = [], crs = None\<rparr>)
             ''/data/zones.shp'' None)
       = Inr \<lparr>columns = [''geometry''], geometry = [], crs = None\<rparr>"
proof -
  define g :: gdf where "g = \<lparr>columns = [''geometry''], geometry = [], crs = None\<rparr>"
  define p where "p = ''/data/zones.shp''"
  define m where "m = ''invalid start byte''"
  have tb: "truthy_strs [enc_hint_of (Some ''CP1252'')] @ [''utf-8'', ''latin-1'', ''cp1252'']
              = [''cp1252'', ''utf-8'', ''latin-1'', ''cp1252'']"
    by code_simp
  have tu: "truthy_strs [Some ''cp1252''] @ [''utf-8'', ''latin-1'', ''cp1252'']
              = [''cp1252'', ''utf-8'', ''latin-1'', ''cp1252'']"
    by code_simp
  have fails: "\<forall>a\<in>set (map Some [''cp1252'', ''utf-8'', ''latin-1'', ''cp1252''] @ [None]).
                 isl (always_fails m p a)"
    by (simp add: always_fails_def)
  note T1 = C2_encoding_resolver_order[of "always_fails m" p "Some ''CP1252''" "Some ''cp1252''"]
  have b: "fst (read_shp_robust (always_fails m) p (Some ''CP1252''))
              = [Some ''cp1252'', Some ''utf-8'', Some ''latin-1'', Some ''cp1252'', None]
           \<and> snd (read_shp_robust (always_fails m) p (Some ''CP1252'')) = Inl (Exn m)"
    using T1[THEN conjunct2, THEN conjunct2, THEN conjunct1] fails
    unfolding tb by (simp add: always_fails_def)
  have u: "snd (read_gdf_try_encodings (always_fails m) p (Some ''cp1252''))
              = Inl (Exn (read_failure_message [''cp1252'', ''utf-8'', ''latin-1'', ''cp1252'']
                     (Some (Exn m))))"
    using T1[THEN conjunct2, THEN conjunct2, THEN conjunct2] fails
    unfolding tu by (simp add: always_fails_def)
  note T2 = C2_encoding_resolver_order[of "reads_only ''latin-1'' g" p None None]
  have att: "fst (read_gdf_try_encodings (reads_only ''latin-1'' g) p None)
               = [Some ''utf-8'', Some ''latin-1'']"
    by (simp add: read_gdf_try_encodings_def truthy_strs_def reads_only_def)
  have ok: "\<not> isl (reads_only ''latin-1'' g p
               (last (fst (read_gdf_try_encodings (reads_only ''latin-1'' g) p None))))"
    unfolding att by (simp add: reads_only_def)
  have r: "snd (read_gdf_try_encodings (reads_only ''latin-1'' g) p None) = Inr g"
    using T2[THEN conjunct2, THEN conjunct1, THEN conjunct2, THEN conjunct2, THEN conjunct2, THEN conjunct2] ok
    unfolding att by (simp add: reads_only_def)
  show ?thesis using b u ok r unfolding g_def p_def m_def by blast
qed

subsection \<open>Facts about the finalisers\<close>

lemma post_load_sent:
  assumes "\<not> isl (fst (ex (AddIdColumn schema table_name) d))"
  shows "\<exists>tail. sent (snd (upload_post_load ex schema table_name fam srid_v (fresh d)))
           = [AddIdColumn schema table_name, AddPrimaryKey schema table_name]
             @ (if truthy_int srid_v \<and> fam \<in> {''MULTIPOLYGON'', ''MULTILINESTRING'', ''MULTIPOINT''}
                then [AlterGeomMulti schema table_name fam (the srid_v)] else [])
             @ tail
         \<and> set tail \<subseteq> {CreateIndex schema table_name, Analyze schema table_name}"
proof -
  define c where "c \<longleftrightarrow> truthy_int srid_v \<and> fam \<in> {''MULTIPOLYGON'', ''MULTILINESTRING'', ''MULTIPOINT''}"
  have up: "upload_post_load ex schema table_name fam srid_v =
       and_then (execute ex (AddIdColumn schema table_name)) (\<lambda>_.
       and_then (try_pass (execute ex (AddPrimaryKey schema table_name))) (\<lambda>_.
       and_then (if c then and_then (execute ex (AlterGeomMulti schema table_name fam (the srid_v)))
                      (\<lambda>_. ret ()) else ret ()) (\<lambda>_.
       and_then (execute ex (CreateIndex schema table_name)) (\<lambda>_.
       and_then (execute ex (Analyze schema table_name)) (\<lambda>_. ret ())))))"
    unfolding upload_post_load_def c_def by (rule refl)
  obtain r1 d1 where e1: "ex (AddIdColumn schema table_name) d = (Inr r1, d1)"
  proof (cases "ex (AddIdColumn schema table_name) d")
    case (Pair a b)
    with assms obtain r where "a = Inr r" by (cases a) auto
    with Pair that show ?thesis by blast
  qed
  obtain r2 d2 where e2: "ex (AddPrimaryKey schema table_name) d1 = (r2, d2)" by force
  have goal: "\<exists>tail. sent (snd (upload_post_load ex schema table_name fam srid_v (fresh d)))
           = [AddIdColumn schema table_name, AddPrimaryKey schema table_name]
             @ (if c then [AlterGeomMulti schema table_name fam (the srid_v)] else [])
             @ tail
         \<and> set tail \<subseteq> {CreateIndex schema table_name, Analyze schema table_name}"
  proof (cases c)
    case True
    obtain r3 d3 where e3: "ex (AlterGeomMulti schema table_name fam (the srid_v)) d2 = (r3, d3)" by force
    obtain r4 d4 where e4: "ex (CreateIndex schema table_name) d3 = (r4, d4)" by force
    obtain r5 d5 where e5: "ex (Analyze schema table_name) d4 = (r5, d5)" by force
    show ?thesis unfolding up using True e1 e2 e3 e4 e5
      by (cases r3; cases r4; cases r5)
         (simp_all add: and_then_def execute_def try_pass_def ret_def fresh_def)
  next
    case False
    obtain r4 d4 where e4: "ex (CreateIndex schema table_name) d2 = (r4, d4)" by force
    obtain r5 d5 where e5: "ex (Analyze schema table_name) d4 = (r5, d5)" by force
    show ?thesis unfolding up using False e1 e2 e4 e5
      by (cases r4; cases r5)
         (simp_all add: and_then_def execute_def try_pass_def ret_def fresh_def)
  qed
  then show ?thesis unfolding c_def .
qed

lemma post_load_run:
  assumes e1: "ex (AddIdColumn schema table_name) d = (Inr r1, d1)"
    and e2: "ex (AddPrimaryKey schema table_name) d1 = (r2, d2)"
  shows "upload_post_load ex schema table_name fam srid_v (fresh d) =
     (if truthy_int srid_v \<and> fam \<in> {''MULTIPOLYGON'', ''MULTILINESTRING'', ''MULTIPOINT''}
      then (case ex (AlterGeomMulti schema table_name fam (the srid_v)) d2 of
              (Inl e, d3) \<Rightarrow>
                (Inl e, \<lparr>db = d3,
                         sent = [AddIdColumn schema table_name, AddPrimaryKey schema table_name,
                                 AlterGeomMulti schema table_name fam (the srid_v)],
                         logs = []\<rparr>)
            | (Inr r3, d3) \<Rightarrow>
                and_then (execute ex (CreateIndex schema table_name)) (\<lambda>_.
                and_then (execute ex (Analyze schema table_name)) (\<lambda>_. ret ()))
                  \<lparr>db = d3,
                   sent = [AddIdColumn schema table_name, AddPrimaryKey schema table_name,
                           AlterGeomMulti schema table_name fam (the srid_v)],
                   logs = []\<rparr>)
      else and_then (execute ex (CreateIndex schema table_name)) (\<lambda>_.
           and_then (execute ex (Analyze schema table_name)) (\<lambda>_. ret ()))
             \<lparr>db = d2, sent = [AddIdColumn schema table_name, AddPrimaryKey schema table_name],
              logs = []\<rparr>)"
proof -
  define c where "c \<longleftrightarrow> truthy_int srid_v \<and> fam \<in> {''MULTIPOLYGON'', ''MULTILINESTRING'', ''MULTIPOINT''}"
  define rest :: "('a, unit) act" where "rest =
       and_then (execute ex (CreateIndex schema table_name)) (\<lambda>_.
       and_then (execute ex (Analyze schema table_name)) (\<lambda>_. ret ()))"
  have up: "upload_post_load ex schema table_name fam srid_v =
       and_then (execute ex (AddIdColumn schema table_name)) (\<lambda>_.
       and_then (try_pass (execute ex (AddPrimaryKey schema table_name))) (\<lambda>_.
       and_then (if c then and_then (execute ex (AlterGeomMulti schema table_name fam (the srid_v)))
                      (\<lambda>_. ret ()) else ret ()) (\<lambda>_. rest)))"
    unfolding upload_post_load_def c_def rest_def by (rule refl)
  have goal: "upload_post_load ex schema table_name fam srid_v (fresh d) =
     (if c
      then (case ex (AlterGeomMulti schema table_name fam (the srid_v)) d2 of
              (Inl e, d3) \<Rightarrow>
                (Inl e, \<lparr>db = d3,
                         sent = [AddIdColumn schema table_name, AddPrimaryKey schema table_name,
                                 AlterGeomMulti schema table_name fam (the srid_v)],
                         logs = []\<rparr>)
            | (Inr r3, d3) \<Rightarrow>
                rest
                  \<lparr>db = d3,
                   sent = [AddIdColumn schema table_name, AddPrimaryKey schema table_name,
                           AlterGeomMulti schema table_name fam (the srid_v)],
                   logs = []\<rparr>)
      else rest
             \<lparr>db = d2, sent = [AddIdColumn schema table_name, AddPrimaryKey schema table_name],
              logs = []\<rparr>)"
  proof (cases c)
    case True
    obtain r3 d3 where e3: "ex (AlterGeomMulti schema table_name fam (the srid_v)) d2 = (r3, d3)" by force
    show ?thesis unfolding up using True e1 e2 e3
      by (cases r3) (simp_all add: and_then_def execute_def try_pass_def ret_def fresh_def)
  next
    case False
    show ?thesis unfolding up using False e1 e2
      by (simp add: and_then_def execute_def try_pass_def ret_def fresh_def)
  qed
  then show ?thesis unfolding c_def rest_def .
qed

lemma col_exec_run:
  "upload_post_load col_exec schema table_name fam srid_v (fresh ty) =
     (Inr (),
      \<lparr>db = (if truthy_int srid_v \<and> fam \<in> {''MULTIPOLYGON'', ''MULTILINESTRING'', ''MULTIPOINT''}
              then GeometryT fam (Some (the srid_v)) 2 else ty),
       sent = [AddIdColumn schema table_name, AddPrimaryKey schema table_name]
              @ (if truthy_int srid_v \<and> fam \<in> {''MULTIPOLYGON'', ''MULTILINESTRING'', ''MULTIPOINT''}
                 then [AlterGeomMulti schema table_name fam (the srid_v)] else [])
              @ [CreateIndex schema table_name, Analyze schema table_name],
       logs = []\<rparr>)"
proof -
  have e1: "col_exec (AddIdColumn schema table_name) ty = (Inr [], ty)" by (simp add: col_exec_def)
  have e2: "col_exec (AddPrimaryKey schema table_name) ty = (Inr [], ty)" by (simp add: col_exec_def)
  have "upload_post_load col_exec schema table_name fam srid_v (fresh ty) =
     (if truthy_int srid_v \<and> fam \<in> {''MULTIPOLYGON'', ''MULTILINESTRING'', ''MULTIPOINT''}
      then (case col_exec (AlterGeomMulti schema table_name fam (the srid_v)) ty of
              (Inl e, d3) \<Rightarrow>
                (Inl e, \<lparr>db = d3,
                         sent = [AddIdColumn schema table_name, AddPrimaryKey schema table_name,
                                 AlterGeomMulti schema table_name fam (the srid_v)],
                         logs = []\<rparr>)
            | (Inr r3, d3) \<Rightarrow>
                and_then (execute col_exec (CreateIndex schema table_name)) (\<lambda>_.
                and_then (execute col_exec (Analyze schema table_name)) (\<lambda>_. ret ()))
                  \<lparr>db = d3,
                   sent = [AddIdColumn schema table_name, AddPrimaryKey schema table_name,
                           AlterGeomMulti schema table_name fam (the srid_v)],
                   logs = []\<rparr>)
      else and_then (execute col_exec (CreateIndex schema table_name)) (\<lambda>_.
           and_then (execute col_exec (Analyze schema table_name)) (\<lambda>_. ret ()))
             \<lparr>db = ty, sent = [AddIdColumn schema table_name, AddPrimaryKey schema table_name],
              logs = []\<rparr>)"
    using e1 e2 by (rule post_load_run)
  then show ?thesis
    by (cases "truthy_int srid_v \<and> fam \<in> {''MULTIPOLYGON'', ''MULTILINESTRING'', ''MULTIPOINT''}")
       (simp_all only: if_True if_False, simp_all add: col_exec_def and_then_def execute_def ret_def)
qed

text \<open>
  Claim C6. In the post-load step of the upload path, once the statement that adds the
  id column has succeeded and whatever the primary key statement did, the step does the
  following in the state \<open>d2\<close> that statement left. If an SRID is known and the family
  is MULTIPOLYGON, MULTILINESTRING or MULTIPOINT, the statement that rewrites the
  geometry column with \<^verbatim>\<open>ST_Multi(ST_Force2D("geom"))\<close> to the type of this family and
  SRID is executed there: when the database rejects it the step ends with that error,
  otherwise the index and statistics statements run in the state the rewrite left. In
  every other case, an unknown SRID among them, these two statements run in \<open>d2\<close>
  directly and no rewrite is ever sent. In a database that accepts every statement the
  declared type of the column after the step is the multi type of the family with this
  SRID and two dimensions in the first case, and the type it had before in the other.
  An SRID is an EPSG code, hence not 0 (Python's truth test on \<^verbatim>\<open>srid\<close> would take 0 for
  unknown).
\<close>

theorem C6_coercion_iff_srid_and_family:
  fixes ex :: "'db executor"
  assumes "srid_v \<noteq> Some 0"
    and "ex (AddIdColumn schema table_name) d = (Inr r1, d1)"
    and "ex (AddPrimaryKey schema table_name) d1 = (r2, d2)"
  shows "(srid_v \<noteq> None \<and> fam \<in> {''MULTIPOLYGON'', ''MULTILINESTRING'', ''MULTIPOINT''} \<longrightarrow>
            upload_post_load ex schema table_name fam srid_v (fresh d) =
              (case ex (AlterGeomMulti schema table_name fam (the srid_v)) d2 of
                 (Inl e, d3) \<Rightarrow>
                   (Inl e, \<lparr>db = d3,
                            sent = [AddIdColumn schema table_name, AddPrimaryKey schema table_name,
                                    AlterGeomMulti schema table_name fam (the srid_v)],
                            logs = []\<rparr>)
               | (Inr r3, d3) \<Rightarrow>
                   and_then (execute ex (CreateIndex schema table_name)) (\<lambda>_.
                   and_then (execute ex (Analyze schema table_name)) (\<lambda>_. ret ()))
                     \<lparr>db = d3,
                      sent = [AddIdColumn schema table_name, AddPrimaryKey schema table_name,
                              AlterGeomMulti schema table_name fam (the srid_v)],
                      logs = []\<rparr>))
       \<and> (\<not> (srid_v \<noteq> None \<and> fam \<in> {''MULTIPOLYGON'', ''MULTILINESTRING'', ''MULTIPOINT''}) \<longrightarrow>
            upload_post_load ex schema table_name fam srid_v (fresh d) =
              and_then (execute ex (CreateIndex schema table_name)) (\<lambda>_.
              and_then (execute ex (Analyze schema table_name)) (\<lambda>_. ret ()))
                \<lparr>db = d2, sent = [AddIdColumn schema table_name, AddPrimaryKey schema table_name],
                 logs = []\<rparr>)
       \<and> (list_ex is_coercion (sent (snd (upload_post_load ex schema table_name fam srid_v (fresh d))))
            \<longleftrightarrow> srid_v \<noteq> None \<and> fam \<in> {''MULTIPOLYGON'', ''MULTILINESTRING'', ''MULTIPOINT''})
       \<and> (\<forall>op\<in>set (sent (snd (upload_post_load ex schema table_name fam srid_v (fresh d)))).
             is_coercion op \<longrightarrow> op = AlterGeomMulti schema table_name fam (the srid_v))
       \<and> db (snd (upload_post_load col_exec schema table_name fam srid_v (fresh ty)))
            = (if srid_v \<noteq> None \<and> fam \<in> {''MULTIPOLYGON'', ''MULTILINESTRING'', ''MULTIPOINT''}
               then GeometryT fam srid_v 2 else ty)"
proof -
  have tr: "truthy_int srid_v \<longleftrightarrow> srid_v \<noteq> None"
    using assms(1) by (cases srid_v) (auto simp: truthy_int_def)
  have run: "upload_post_load ex schema table_name fam srid_v (fresh d) =
     (if srid_v \<noteq> None \<and> fam \<in> {''MULTIPOLYGON'', ''MULTILINESTRING'', ''MULTIPOINT''}
      then (case ex (AlterGeomMulti schema table_name fam (the srid_v)) d2 of
              (Inl e, d3) \<Rightarrow>
                (Inl e, \<lparr>db = d3,
                         sent = [AddIdColumn schema table_name, AddPrimaryKey schema table_name,
                                 AlterGeomMulti schema table_name fam (the srid_v)],
                         logs = []\<rparr>)
            | (Inr r3, d3) \<Rightarrow>
                and_then (execute ex (CreateIndex schema table_name)) (\<lambda>_.
                and_then (execute ex (Analyze schema table_name)) (\<lambda>_. ret ()))
                  \<lparr>db = d3,
                   sent = [AddIdColumn schema table_name, AddPrimaryKey schema table_name,
                           AlterGeomMulti schema table_name fam (the srid_v)],
                   logs = []\<rparr>)
      else and_then (execute ex (CreateIndex schema table_name)) (\<lambda>_.
           and_then (execute ex (Analyze schema table_name)) (\<lambda>_. ret ()))
             \<lparr>db = d2, sent = [AddIdColumn schema table_name, AddPrimaryKey schema table_name],
              logs = []\<rparr>)"
    unfolding tr[symmetric] using assms(2,3) by (rule post_load_run)
  have 1: "srid_v \<noteq> None \<and> fam \<in> {''MULTIPOLYGON'', ''MULTILINESTRING'', ''MULTIPOINT''} \<longrightarrow>
            upload_post_load ex schema table_name fam srid_v (fresh d) =
              (case ex (AlterGeomMulti schema table_name fam (the srid_v)) d2 of
                 (Inl e, d3) \<Rightarrow>
                   (Inl e, \<lparr>db = d3,
                            sent = [AddIdColumn schema table_name, AddPrimaryKey schema table_name,
                                    AlterGeomMulti schema table_name fam (the srid_v)],
                            logs = []\<rparr>)
               | (Inr r3, d3) \<Rightarrow>
                   and_then (execute ex (CreateIndex schema table_name)) (\<lambda>_.
                   and_then (execute ex (Analyze schema table_name)) (\<lambda>_. ret ()))
                     \<lparr>db = d3,
                      sent = [AddIdColumn schema table_name, AddPrimaryKey schema table_name,
                              AlterGeomMulti schema table_name fam (the srid_v)],
                      logs = []\<rparr>)"
  proof (intro impI)
    assume c: "srid_v \<noteq> None \<and> fam \<in> {''MULTIPOLYGON'', ''MULTILINESTRING'', ''MULTIPOINT''}"
    show "upload_post_load ex schema table_name fam srid_v (fresh d) =
              (case ex (AlterGeomMulti schema table_name fam (the srid_v)) d2 of
                 (Inl e, d3) \<Rightarrow>
                   (Inl e, \<lparr>db = d3,
                            sent = [AddIdColumn schema table_name, AddPrimaryKey schema table_name,
                                    AlterGeomMulti schema table_name fam (the srid_v)],
                            logs = []\<rparr>)
               | (Inr r3, d3) \<Rightarrow>
                   and_then (execute ex (CreateIndex schema table_name)) (\<lambda>_.
                   and_then (execute ex (Analyze schema table_name)) (\<lambda>_. ret ()))
                     \<lparr>db = d3,
                      sent = [AddIdColumn schema table_name, AddPrimaryKey schema table_name,
                              AlterGeomMulti schema table_name fam (the srid_v)],
                      logs = []\<rparr>)"
      using run unfolding if_P[OF c] .
  qed
  have 2: "\<not> (srid_v \<noteq> None \<and> fam \<in> {''MULTIPOLYGON'', ''MULTILINESTRING'', ''MULTIPOINT''}) \<longrightarrow>
            upload_post_load ex schema table_name fam srid_v (fresh d) =
              and_then (execute ex (CreateIndex schema table_name)) (\<lambda>_.
              and_then (execute ex (Analyze schema table_name)) (\<lambda>_. ret ()))
                \<lparr>db = d2, sent = [AddIdColumn schema table_name, AddPrimaryKey schema table_name],
                 logs = []\<rparr>"
  proof (intro impI)
    assume c: "\<not> (srid_v \<noteq> None \<and> fam \<in> {''MULTIPOLYGON'', ''MULTILINESTRING'', ''MULTIPOINT''})"
    show "upload_post_load ex schema table_name fam srid_v (fresh d) =
              and_then (execute ex (CreateIndex schema table_name)) (\<lambda>_.
              and_then (execute ex (Analyze schema table_name)) (\<lambda>_. ret ()))
                \<lparr>db = d2, sent = [AddIdColumn schema table_name, AddPrimaryKey schema table_name],
                 logs = []\<rparr>"
      using run unfolding if_not_P[OF c] .
  qed
  have ok: "\<not> isl (fst (ex (AddIdColumn schema table_name) d))" using assms(2) by simp
  from post_load_sent[of ex schema table_name d fam srid_v] ok obtain tail where
    s: "sent (snd (upload_post_load ex schema table_name fam srid_v (fresh d)))
           = [AddIdColumn schema table_name, AddPrimaryKey schema table_name]
             @ (if truthy_int srid_v \<and> fam \<in> {''MULTIPOLYGON'', ''MULTILINESTRING'', ''MULTIPOINT''}
                then [AlterGeomMulti schema table_name fam (the srid_v)] else [])
             @ tail"
    and t: "set tail \<subseteq> {CreateIndex schema table_name, Analyze schema table_name}" by blast
  have nt: "\<forall>op\<in>set tail. \<not> is_coercion op" using t by auto
  have 3: "list_ex is_coercion (sent (snd (upload_post_load ex schema table_name fam srid_v (fresh d))))
            \<longleftrightarrow> srid_v \<noteq> None \<and> fam \<in> {''MULTIPOLYGON'', ''MULTILINESTRING'', ''MULTIPOINT''}"
    unfolding s using nt tr by (auto simp: list_ex_iff)
  have 4: "\<forall>op\<in>set (sent (snd (upload_post_load ex schema table_name fam srid_v (fresh d)))).
             is_coercion op \<longrightarrow> op = AlterGeomMulti schema table_name fam (the srid_v)"
    unfolding s using nt tr by (auto simp: list_ex_iff)
  have 5: "db (snd (upload_post_load col_exec schema table_name fam srid_v (fresh ty)))
            = (if srid_v \<noteq> None \<and> fam \<in> {''MULTIPOLYGON'', ''MULTILINESTRING'', ''MULTIPOINT''}
               then GeometryT fam srid_v 2 else ty)"
    unfolding col_exec_run tr by auto
  from 1 2 3 4 5 show ?thesis by blast
qed

theorem C6_coercion_iff_srid_and_family_witness:
  "upload_post_load all_ok ''public'' ''zones'' ''MULTIPOLYGON'' (Some 2154) (fresh ())
     = (Inr (), \<lparr>db = (),
          sent = [AddIdColumn ''public'' ''zones'', AddPrimaryKey ''public'' ''zones'',
                  AlterGeomMulti ''public'' ''zones'' ''MULTIPOLYGON'' 2154,
                  CreateIndex ''public'' ''zones'', Analyze ''public'' ''zones''],
          logs = []\<rparr>)
   \<and> upload_post_load all_ok ''public'' ''zones'' ''GEOMETRY'' (Some 2154) (fresh ())
     = (Inr (), \<lparr>db = (),
          sent = [AddIdColumn ''public'' ''zones'', AddPrimaryKey ''public'' ''zones'',
                  CreateIndex ''public'' ''zones'', Analyze ''public'' ''zones''],
          logs = []\<rparr>)
   \<and> \<not> list_ex is_coercion
        (sent (snd (upload_post_load all_ok ''public'' ''zones'' ''MULTIPOLYGON'' None (fresh ()))))
   \<and> db (snd (upload_post_load col_exec ''public'' ''zones'' ''MULTIPOLYGON'' (Some 2154)
               (fresh (GeometryT ''MULTIPOLYGON'' (Some 2154) 3))))
     = GeometryT ''MULTIPOLYGON'' (Some 2154) 2
   \<and> db (snd (upload_post_load col_exec ''public'' ''zones'' ''MULTIPOLYGON'' None
               (fresh (GeometryT ''GEOMETRY'' None 3))))
     = GeometryT ''GEOMETRY'' None 3
   \<and> upload_post_load tx_exec ''public'' ''zones'' ''MULTIPOLYGON'' (Some 2154)
        (fresh \<lparr>tx_pk_blocked = True, tx_aborted = False\<rparr>)
     = (Inl (Exn ''current transaction is aborted, commands ignored until end of transaction block''),
        \<lparr>db = \<lparr>tx_pk_blocked = True, tx_aborted = True\<rparr>,
          sent = [AddIdColumn ''public'' ''zones'', AddPrimaryKey ''public'' ''zones'',
                  AlterGeomMulti ''public'' ''zones'' ''MULTIPOLYGON'' 2154],
          logs = []\<rparr>)"
proof -
  have h1: "(Some 2154 :: int option) \<noteq> Some 0" by simp
  have h1': "(None :: int option) \<noteq> Some 0" by simp
  have h2: "all_ok (AddIdColumn ''public'' ''zones'') () = (Inr [], ())" by (simp add: all_ok_def)
  have h3: "all_ok (AddPrimaryKey ''public'' ''zones'') () = (Inr [], ())" by (simp add: all_ok_def)
  note T1 = C6_coercion_iff_srid_and_family[of "Some 2154" all_ok "''public''" "''zones''" "()" "[]" "()"
              "Inr []" "()" "''MULTIPOLYGON''" "GeometryT ''MULTIPOLYGON'' (Some 2154) 3", OF h1 h2 h3]
  note T2 = C6_coercion_iff_srid_and_family[of "Some 2154" all_ok "''public''" "''zones''" "()" "[]" "()"
              "Inr []" "()" "''GEOMETRY''" "GeometryT ''GEOMETRY'' (Some 2154) 3", OF h1 h2 h3]
  note T3 = C6_coercion_iff_srid_and_family[of None all_ok "''public''" "''zones''" "()" "[]" "()"
              "Inr []" "()" "''MULTIPOLYGON''" "GeometryT ''GEOMETRY'' None 3", OF h1' h2 h3]
  have a: "upload_post_load all_ok ''public'' ''zones'' ''MULTIPOLYGON'' (Some 2154) (fresh ())
     = (Inr (), \<lparr>db = (),
          sent = [AddIdColumn ''public'' ''zones'', AddPrimaryKey ''public'' ''zones'',
                  AlterGeomMulti ''public'' ''zones'' ''MULTIPOLYGON'' 2154,
                  CreateIndex ''public'' ''zones'', Analyze ''public'' ''zones''],
          logs = []\<rparr>)"
    using T1[THEN conjunct1] by (simp add: all_ok_def and_then_def execute_def ret_def)
  have b: "upload_post_load all_ok ''public'' ''zones'' ''GEOMETRY'' (Some 2154) (fresh ())
     = (Inr (), \<lparr>db = (),
          sent = [AddIdColumn ''public'' ''zones'', AddPrimaryKey ''public'' ''zones'',
                  CreateIndex ''public'' ''zones'', Analyze ''public'' ''zones''],
          logs = []\<rparr>)"
    using T2[THEN conjunct2, THEN conjunct1] by (simp add: all_ok_def and_then_def execute_def ret_def)
  have c: "\<not> list_ex is_coercion
        (sent (snd (upload_post_load all_ok ''public'' ''zones'' ''MULTIPOLYGON'' None (fresh ()))))"
    using T3[THEN conjunct2, THEN conjunct2, THEN conjunct1] by simp
  have d: "db (snd (upload_post_load col_exec ''public'' ''zones'' ''MULTIPOLYGON'' (Some 2154)
               (fresh (GeometryT ''MULTIPOLYGON'' (Some 2154) 3))))
     = GeometryT ''MULTIPOLYGON'' (Some 2154) 2"
    using T1[THEN conjunct2, THEN conjunct2, THEN conjunct2, THEN conjunct2] by simp
  have e: "db (snd (upload_post_load col_exec ''public'' ''zones'' ''MULTIPOLYGON'' None
               (fresh (GeometryT ''GEOMETRY'' None 3))))
     = GeometryT ''GEOMETRY'' None 3"
    using T3[THEN conjunct2, THEN conjunct2, THEN conjunct2, THEN conjunct2] by simp
  have k2: "tx_exec (AddIdColumn ''public'' ''zones'') \<lparr>tx_pk_blocked = True, tx_aborted = False\<rparr>
              = (Inr [], \<lparr>tx_pk_blocked = True, tx_aborted = False\<rparr>)"
    by (simp add: tx_exec_def)
  have k3: "tx_exec (AddPrimaryKey ''public'' ''zones'') \<lparr>tx_pk_blocked = True, tx_aborted = False\<rparr>
              = (Inl (Exn (''could not create unique index '' @ [CHR 0x22] @ ''zones_pkey'' @ [CHR 0x22])),
                 \<lparr>tx_pk_blocked = True, tx_aborted = True\<rparr>)"
    by (simp add: tx_exec_def)
  note T4 = C6_coercion_iff_srid_and_family[of "Some 2154" tx_exec "''public''" "''zones''"
              "\<lparr>tx_pk_blocked = True, tx_aborted = False\<rparr>" "[]"
              "\<lparr>tx_pk_blocked = True, tx_aborted = False\<rparr>"
              "Inl (Exn (''could not create unique index '' @ [CHR 0x22] @ ''zones_pkey'' @ [CHR 0x22]))"
              "\<lparr>tx_pk_blocked = True, tx_aborted = True\<rparr>" "''MULTIPOLYGON''"
              "GeometryT ''GEOMETRY'' None 3", OF h1 k2 k3]
  have f: "upload_post_load tx_exec ''public'' ''zones'' ''MULTIPOLYGON'' (Some 2154)
        (fresh \<lparr>tx_pk_blocked = True, tx_aborted = False\<rparr>)
     = (Inl (Exn ''current transaction is aborted, commands ignored until end of transaction block''),
        \<lparr>db = \<lparr>tx_pk_blocked = True, tx_aborted = True\<rparr>,
          sent = [AddIdColumn ''public'' ''zones'', AddPrimaryKey ''public'' ''zones'',
                  AlterGeomMulti ''public'' ''zones'' ''MULTIPOLYGON'' 2154],
          logs = []\<rparr>)"
    using T4[THEN conjunct1] by (simp add: tx_exec_def)
  from a b c d e f show ?thesis by blast
qed

subsection \<open>The primary key statement\<close>


lemmas act_defs = and_then_def execute_def try_pass_def ret_def fresh_def log_event_def do_when_def
























subsection \<open>The access policy step\<close>

lemma policy_rows_empty:
  "filter (\<lambda>x. x = k) ps = [] \<longleftrightarrow> k \<notin> set ps"
  by (induction ps) auto

lemma policy_step:
  assumes "(schema, table) \<in> set (pg_tables d)"
  shows "create_views_and_policies pg_exec schema table (fresh d) =
     (Inr (),
      \<lparr>db = (if (schema, table, policy_name table) \<in> set (pg_policies d)
              then d\<lparr>pg_rls := List.insert (schema, table) (pg_rls d)\<rparr>
              else d\<lparr>pg_rls := List.insert (schema, table) (pg_rls d),
                     pg_policies := pg_policies d @ [(schema, table, policy_name table)]\<rparr>),
       sent = [EnableRLS schema table, SelectPolicy schema table (policy_name table)]
              @ (if (schema, table, policy_name table) \<in> set (pg_policies d) then []
                 else [CreatePolicy (policy_name table) schema table]),
       logs = []\<rparr>)"
  using assms
  by (simp add: create_views_and_policies_def CREATE_GEOJSON_VIEW_def
        CREATE_REPROJECTED_VIEW_4326_def APPLY_RLS_AND_GRANT_def act_defs Let_def
        policy_rows_empty)

text \<open>
  Claim C9. For a table that exists, the access policy step ends normally; it sends the
  query on \<^verbatim>\<open>pg_policies\<close> for the policy name \<^verbatim>\<open>read_{table}_anon\<close> right after
  enabling row level security, and sends \<^verbatim>\<open>CREATE POLICY\<close> exactly when the catalogue
  has no policy of that name. Run a second time on the resulting database, the step ends
  normally again, sends no \<^verbatim>\<open>CREATE POLICY\<close>, and leaves the database as it was: the
  policy is there once when it was absent at the start.
\<close>

theorem C9_policy_step_idempotent:
  fixes d :: pg and schema table :: string
  defines "first \<equiv> create_views_and_policies pg_exec schema table (fresh d)"
  defines "second \<equiv> create_views_and_policies pg_exec schema table (fresh (db (snd first)))"
  assumes "(schema, table) \<in> set (pg_tables d)"
  shows "fst first = Inr () \<and> fst second = Inr ()
       \<and> take 2 (sent (snd first)) = [EnableRLS schema table, SelectPolicy schema table (policy_name table)]
       \<and> (CreatePolicy (policy_name table) schema table \<in> set (sent (snd first))
            \<longleftrightarrow> (schema, table, policy_name table) \<notin> set (pg_policies d))
       \<and> sent (snd second) = [EnableRLS schema table, SelectPolicy schema table (policy_name table)]
       \<and> db (snd second) = db (snd first)
       \<and> count_list (pg_policies (db (snd second))) (schema, table, policy_name table)
            = (if (schema, table, policy_name table) \<in> set (pg_policies d)
               then count_list (pg_policies d) (schema, table, policy_name table) else 1)"
proof -
  have f: "first = (Inr (),
      \<lparr>db = (if (schema, table, policy_name table) \<in> set (pg_policies d)
              then d\<lparr>pg_rls := List.insert (schema, table) (pg_rls d)\<rparr>
              else d\<lparr>pg_rls := List.insert (schema, table) (pg_rls d),
                     pg_policies := pg_policies d @ [(schema, table, policy_name table)]\<rparr>),
       sent = [EnableRLS schema table, SelectPolicy schema table (policy_name table)]
              @ (if (schema, table, policy_name table) \<in> set (pg_policies d) then []
                 else [CreatePolicy (policy_name table) schema table]),
       logs = []\<rparr>)"
    unfolding first_def by (rule policy_step[OF assms(3)])
  define d1 where "d1 = db (snd first)"
  have t1: "(schema, table) \<in> set (pg_tables d1)" using assms(3) by (simp add: d1_def f)
  have p1: "(schema, table, policy_name table) \<in> set (pg_policies d1)" by (simp add: d1_def f)
  have r1: "List.insert (schema, table) (pg_rls d1) = pg_rls d1"
    by (simp add: d1_def f)
  have s: "second = (Inr (),
      \<lparr>db = d1,
       sent = [EnableRLS schema table, SelectPolicy schema table (policy_name table)],
       logs = []\<rparr>)"
    unfolding second_def d1_def[symmetric] using policy_step[OF t1] p1 r1 by simp
  have c: "count_list (pg_policies d1) (schema, table, policy_name table)
            = (if (schema, table, policy_name table) \<in> set (pg_policies d)
               then count_list (pg_policies d) (schema, table, policy_name table) else 1)"
    by (simp add: d1_def f count_list_0_iff)
  show ?thesis using c unfolding s unfolding f d1_def[symmetric]
    by (simp add: d1_def f)
qed

theorem C9_policy_step_idempotent_witness:
  "(''public'', ''zones'') \<in> set (pg_tables \<lparr>pg_tables = [(''public'', ''zones'')], pg_rls = [], pg_policies = []\<rparr>)
   \<and> fst (create_views_and_policies pg_exec ''public'' ''zones''
          (fresh \<lparr>pg_tables = [(''public'', ''zones'')], pg_rls = [], pg_policies = []\<rparr>)) = Inr ()
   \<and> fst (create_views_and_policies pg_exec ''public'' ''zones''
          (fresh (db (snd (create_views_and_policies pg_exec ''public'' ''zones''
             (fresh \<lparr>pg_tables = [(''public'', ''zones'')], pg_rls = [], pg_policies = []\<rparr>)))))) = Inr ()
   \<and> count_list (pg_policies (db (snd (create_views_and_policies pg_exec ''public'' ''zones''
          (fresh (db (snd (create_views_and_policies pg_exec ''public'' ''zones''
             (fresh \<lparr>pg_tables = [(''public'', ''zones'')], pg_rls = [], pg_policies = []\<rparr>)))))))))
        (''public'', ''zones'', policy_name ''zones'') = 1"
proof -
  define d :: pg where "d = \<lparr>pg_tables = [(''public'', ''zones'')], pg_rls = [], pg_policies = []\<rparr>"
  have h: "(''public'', ''zones'') \<in> set (pg_tables d)" by (simp add: d_def)
  have n: "(''public'', ''zones'', policy_name ''zones'') \<notin> set (pg_policies d)" by (simp add: d_def)
  note T = C9_policy_step_idempotent[OF h]
  have a: "fst (create_views_and_policies pg_exec ''public'' ''zones'' (fresh d)) = Inr ()"
    using T by blast
  have b: "fst (create_views_and_policies pg_exec ''public'' ''zones''
          (fresh (db (snd (create_views_and_policies pg_exec ''public'' ''zones'' (fresh d)))))) = Inr ()"
    using T by blast
  have c: "count_list (pg_policies (db (snd (create_views_and_policies pg_exec ''public'' ''zones''
          (fresh (db (snd (create_views_and_policies pg_exec ''public'' ''zones'' (fresh d)))))))))
        (''public'', ''zones'', policy_name ''zones'') = 1"
  proof -
    from T have "count_list (pg_policies (db (snd (create_views_and_policies pg_exec ''public'' ''zones''
          (fresh (db (snd (create_views_and_policies pg_exec ''public'' ''zones'' (fresh d)))))))))
        (''public'', ''zones'', policy_name ''zones'')
       = (if (''public'', ''zones'', policy_name ''zones'') \<in> set (pg_policies d)
          then count_list (pg_policies d) (''public'', ''zones'', policy_name ''zones'') else 1)"
      by blast
    then show ?thesis by (simp only: n if_False)
  qed
  show ?thesis using h a b c unfolding d_def by blast
qed

subsection \<open>Facts about the batch loop\<close>

lemma batch_loop_append:
  "batch_loop body (pre @ post) errs w =
     (case batch_loop body pre errs w of (e1, w1) \<Rightarrow> batch_loop body post e1 w1)"
proof (induction pre arbitrary: errs w)
  case Nil
  show ?case by simp
next
  case (Cons f pre)
  show ?case
  proof (cases "body f w")
    case (Pair r w')
    then show ?thesis using Cons.IH by (cases r) simp_all
  qed
qed

lemma batch_loop_entries:
  "\<exists>entries. fst (batch_loop body files errs w) = errs @ entries \<and> subseq (map fst entries) files"
proof (induction files arbitrary: errs w)
  case Nil
  show ?case by simp
next
  case (Cons f files)
  obtain r w' where b: "body f w = (r, w')" by force
  show ?case
  proof (cases r)
    case (Inr u)
    from Cons.IH[of errs w'] obtain entries where
      "fst (batch_loop body files errs w') = errs @ entries" "subseq (map fst entries) files" by blast
    then show ?thesis using b Inr by (intro exI[of _ entries]) auto
  next
    case (Inl e)
    let ?w = "w'\<lparr>logs := logs w' @ [FileError f (message e)]\<rparr>"
    from Cons.IH[of "errs @ [(f, message e)]" ?w] obtain entries where
      "fst (batch_loop body files (errs @ [(f, message e)]) ?w) = (errs @ [(f, message e)]) @ entries"
      "subseq (map fst entries) files" by blast
    then show ?thesis using b Inl by (intro exI[of _ "(f, message e) # entries"]) simp
  qed
qed

lemma quiet_ret: "quiet (ret x)"
  by (simp add: quiet_def ret_def)

lemma quiet_raise: "quiet (raise e)"
  by (simp add: quiet_def raise_def)

lemma quiet_execute: "quiet (execute ex op)"
  by (simp add: quiet_def execute_def split: prod.splits)

lemma quiet_log: "\<not> is_start ev \<Longrightarrow> \<not> is_failure ev \<Longrightarrow> quiet (log_event ev)"
  by (simp add: quiet_def log_event_def)

lemma quiet_and_then:
  assumes "quiet m" and "\<And>x. quiet (f x)"
  shows "quiet (and_then m f)"
  unfolding quiet_def
proof
  fix w
  obtain r w' where m: "m w = (r, w')" by force
  from assms(1) m obtain evs1 where
    e1: "logs w' = logs w @ evs1" "\<forall>e\<in>set evs1. \<not> is_start e \<and> \<not> is_failure e"
    unfolding quiet_def by (metis snd_conv)
  show "\<exists>evs. logs (snd (and_then m f w)) = logs w @ evs \<and> (\<forall>e\<in>set evs. \<not> is_start e \<and> \<not> is_failure e)"
  proof (cases r)
    case (Inl e)
    then show ?thesis using m e1 by (simp add: and_then_def)
  next
    case (Inr x)
    from assms(2)[of x] obtain evs2 where
      e2: "logs (snd (f x w')) = logs w' @ evs2" "\<forall>e\<in>set evs2. \<not> is_start e \<and> \<not> is_failure e"
      unfolding quiet_def by blast
    show ?thesis using m Inr e1 e2 by (intro exI[of _ "evs1 @ evs2"]) (auto simp: and_then_def)
  qed
qed

lemma quiet_try_pass: "quiet m \<Longrightarrow> quiet (try_pass m)"
  unfolding quiet_def try_pass_def by (auto split: prod.splits) (metis snd_conv)

lemma quiet_do_when: "quiet m \<Longrightarrow> quiet (do_when b m)"
  unfolding do_when_def by (simp add: quiet_and_then quiet_ret)

lemma quiet_to_postgis: "quiet (to_postgis ex g table schema srid_v z)"
  unfolding to_postgis_def Let_def
  by (auto split: prod.splits intro!: quiet_and_then quiet_execute quiet_ret quiet_log quiet_try_pass)

lemma quiet_policies: "quiet (create_views_and_policies ex schema table)"
  unfolding create_views_and_policies_def Let_def
  by (intro quiet_and_then quiet_do_when quiet_execute)

lemma ingest_one_logs:
  "\<exists>evs. logs (snd (ingest_one ex rd cpg_of rel_stem root f w)) = logs w @ FileStart f # evs
         \<and> (\<forall>e\<in>set evs. \<not> is_start e \<and> \<not> is_failure e)"
proof -
  define rest :: "('a, unit) act" where "rest =
     (case snd (read_shp_robust rd f (cpg_of f)) of
       Inl e \<Rightarrow> raise e
     | Inr g \<Rightarrow>
         if gdf_empty g then log_event EmptySkipped
         else
           let srid_v = detect_srid g in
           and_then (do_when (srid_v = None) (log_event UnknownCrs)) (\<lambda>_.
           let g1 = sanitize_columns g;
               g2 = (if ''geometry'' \<in> set (columns g1) then rename_geometry g1 else g1) in
           case (if ''geom'' \<in> set (columns g2) then set_geometry ''geom'' g2 else Inr g2) of
             Inl e \<Rightarrow> raise e
           | Inr g3 \<Rightarrow>
               let z = has_z_any g3;
                   table = table_name_from_path rel_stem root f in
               and_then (to_postgis ex g3 table PG_SCHEMA srid_v z) (\<lambda>_.
               create_views_and_policies ex PG_SCHEMA table)))"
  have q: "quiet rest"
    unfolding rest_def Let_def
    by (auto split: sum.splits
          intro!: quiet_raise quiet_log quiet_and_then quiet_do_when quiet_to_postgis quiet_policies)
  have i: "ingest_one ex rd cpg_of rel_stem root f w = rest (w\<lparr>logs := logs w @ [FileStart f]\<rparr>)"
    by (simp add: ingest_one_def rest_def and_then_def log_event_def)
  from q obtain evs where
    "logs (snd (rest (w\<lparr>logs := logs w @ [FileStart f]\<rparr>))) = logs (w\<lparr>logs := logs w @ [FileStart f]\<rparr>) @ evs"
    "\<forall>e\<in>set evs. \<not> is_start e \<and> \<not> is_failure e"
    unfolding quiet_def by blast
  then show ?thesis unfolding i by (intro exI[of _ evs]) simp
qed

lemma batch_loop_marks:
  assumes "\<And>f w. \<exists>evs. logs (snd (body f w)) = logs w @ FileStart f # evs
                      \<and> (\<forall>e\<in>set evs. \<not> is_start e \<and> \<not> is_failure e)"
  shows "filter is_start (logs (snd (batch_loop body files errs w)))
           = filter is_start (logs w) @ map FileStart files
       \<and> (\<exists>entries. fst (batch_loop body files errs w) = errs @ entries
            \<and> filter is_failure (logs (snd (batch_loop body files errs w)))
                = filter is_failure (logs w) @ map (\<lambda>(f, m). FileError f m) entries)"
proof (induction files arbitrary: errs w)
  case Nil
  show ?case by simp
next
  case (Cons f files)
  obtain r w' where b: "body f w = (r, w')" by force
  from assms[of f w] b obtain evs where
    l: "logs w' = logs w @ FileStart f # evs" "\<forall>e\<in>set evs. \<not> is_start e \<and> \<not> is_failure e"
    by auto
  have fs: "filter is_start (logs w') = filter is_start (logs w) @ [FileStart f]"
    and ff: "filter is_failure (logs w') = filter is_failure (logs w)"
    using l by (simp_all add: filter_empty_conv)
  show ?case
  proof (cases r)
    case (Inr u)
    from Cons.IH[of errs w'] obtain entries where
      ih: "filter is_start (logs (snd (batch_loop body files errs w')))
             = filter is_start (logs w') @ map FileStart files"
          "fst (batch_loop body files errs w') = errs @ entries"
          "filter is_failure (logs (snd (batch_loop body files errs w')))
                = filter is_failure (logs w') @ map (\<lambda>(f, m). FileError f m) entries"
      by blast
    show ?thesis using b Inr ih fs ff by (intro conjI exI[of _ entries]) simp_all
  next
    case (Inl e)
    let ?w = "w'\<lparr>logs := logs w' @ [FileError f (message e)]\<rparr>"
    from Cons.IH[of "errs @ [(f, message e)]" ?w] obtain entries where
      ih: "filter is_start (logs (snd (batch_loop body files (errs @ [(f, message e)]) ?w)))
             = filter is_start (logs ?w) @ map FileStart files"
          "fst (batch_loop body files (errs @ [(f, message e)]) ?w) = (errs @ [(f, message e)]) @ entries"
          "filter is_failure (logs (snd (batch_loop body files (errs @ [(f, message e)]) ?w)))
                = filter is_failure (logs ?w) @ map (\<lambda>(f, m). FileError f m) entries"
      by blast
    show ?thesis using b Inl ih fs ff
      by (intro conjI exI[of _ "(f, message e) # entries"]) simp_all
  qed
qed

text \<open>
  Claim C8. In the batch run every file is processed, whatever happened to the files
  before it, and this holds for any loop body: after any initial part of the list, the
  next file is run in the state reached; when its ingestion raises, the pair of its
  path and the error message is appended to the error list, the failure is logged, and
  the loop goes on with the rest. The error list has at most one entry per file, in the
  order of the files. At the end the report is the error list when it is not empty, and
  no report is written otherwise. With the body of \<^verbatim>\<open>main\<close>, the log has one opening
  line per file and one failure line per entry of the error list, in the same order.
\<close>

theorem C8_batch_errors_recorded:
  fixes body :: "string \<Rightarrow> ('db, unit) act" and w :: "'db world" and files :: "string list"
    and ex :: "'db executor" and rd :: reader
    and cpg_of :: "string \<Rightarrow> string option" and rel_stem :: "string \<Rightarrow> string \<Rightarrow> string"
    and root :: string
  defines "errors \<equiv> fst (batch_loop body files [] w)"
  defines "one \<equiv> ingest_one ex rd cpg_of rel_stem root"
  shows "(\<forall>pre f post errs v.
            batch_loop body (pre @ f # post) errs v =
              (case batch_loop body pre errs v of
                 (e1, w1) \<Rightarrow>
                   (case body f w1 of
                      (Inr u, w2) \<Rightarrow> batch_loop body post e1 w2
                    | (Inl e, w2) \<Rightarrow>
                        batch_loop body post (e1 @ [(f, message e)])
                          (w2\<lparr>logs := logs w2 @ [FileError f (message e)]\<rparr>))))
       \<and> subseq (map fst errors) files
       \<and> fst (batch_run body files w) = Inr (if errors = [] then None else Some errors)
       \<and> filter is_start (logs (snd (batch_loop one files [] w)))
            = filter is_start (logs w) @ map FileStart files
       \<and> filter is_failure (logs (snd (batch_loop one files [] w)))
            = filter is_failure (logs w)
              @ map (\<lambda>(f, m). FileError f m) (fst (batch_loop one files [] w))"
proof -
  have 1: "\<forall>pre f post errs v.
            batch_loop body (pre @ f # post) errs v =
              (case batch_loop body pre errs v of
                 (e1, w1) \<Rightarrow>
                   (case body f w1 of
                      (Inr u, w2) \<Rightarrow> batch_loop body post e1 w2
                    | (Inl e, w2) \<Rightarrow>
                        batch_loop body post (e1 @ [(f, message e)])
                          (w2\<lparr>logs := logs w2 @ [FileError f (message e)]\<rparr>)))"
    by (simp add: batch_loop_append split: prod.splits sum.splits)
  from batch_loop_entries[of body files "[]" w]
  have 2: "subseq (map fst errors) files" by (simp add: errors_def)
  have 3: "fst (batch_run body files w) = Inr (if errors = [] then None else Some errors)"
    by (simp add: batch_run_def errors_def split: prod.splits)
  have marks: "filter is_start (logs (snd (batch_loop one files [] w)))
                 = filter is_start (logs w) @ map FileStart files
       \<and> (\<exists>entries. fst (batch_loop one files [] w) = [] @ entries
            \<and> filter is_failure (logs (snd (batch_loop one files [] w)))
                = filter is_failure (logs w) @ map (\<lambda>(f, m). FileError f m) entries)"
    unfolding one_def
    by (rule batch_loop_marks) (rule ingest_one_logs)
  then have 4: "filter is_start (logs (snd (batch_loop one files [] w)))
                 = filter is_start (logs w) @ map FileStart files"
    and 5: "filter is_failure (logs (snd (batch_loop one files [] w)))
            = filter is_failure (logs w)
              @ map (\<lambda>(f, m). FileError f m) (fst (batch_loop one files [] w))"
    by auto
  from 1 2 3 4 5 show ?thesis by blast
qed

lemma demo_table: "table_name_from_path demo_stem ''/d'' ''/d/a.shp'' = ''a''"
  by code_simp

lemma demo_cols: "sanitize_columns \<lparr>columns = [''ID'', ''geometry''], geometry = [Some (Geometry ''Polygon'' False)],
               crs = Some (Inr (Some 2154))\<rparr> = \<lparr>columns = [''id'', ''geometry''], geometry = [Some (Geometry ''Polygon'' False)],
               crs = Some (Inr (Some 2154))\<rparr>"
  by code_simp

lemma demo_cols_c: "sanitize_columns \<lparr>columns = [''GEOM'', ''geometry''], geometry = [Some (Geometry ''Polygon'' False)],
               crs = Some (Inr (Some 2154))\<rparr> = \<lparr>columns = [''geom'', ''geometry''], geometry = [Some (Geometry ''Polygon'' False)],
               crs = Some (Inr (Some 2154))\<rparr>"
  by code_simp

lemma demo_type: "geom_type_for_column \<lparr>columns = [''id'', ''geom''], geometry = [Some (Geometry ''Polygon'' False)],
               crs = Some (Inr (Some 2154))\<rparr> False = (''POLYGON'', False)"
  by code_simp

lemma demo_read_a:
  "snd (read_shp_robust demo_reader ''/d/a.shp'' (no_sidecar ''/d/a.shp''))
     = Inr \<lparr>columns = [''ID'', ''geometry''], geometry = [Some (Geometry ''Polygon'' False)],
               crs = Some (Inr (Some 2154))\<rparr>"
  by (simp add: read_shp_robust_def no_sidecar_def enc_hint_of_def truthy_strs_def demo_reader_def)

lemma demo_read_b:
  "snd (read_shp_robust demo_reader ''/d/b.shp'' (no_sidecar ''/d/b.shp''))
     = Inl (Exn ''not recognized as a supported file format'')"
  by (simp add: read_shp_robust_def no_sidecar_def enc_hint_of_def truthy_strs_def demo_reader_def)

lemma demo_read_c:
  "snd (read_shp_robust demo_reader ''/d/c.shp'' (no_sidecar ''/d/c.shp''))
     = Inr \<lparr>columns = [''GEOM'', ''geometry''], geometry = [Some (Geometry ''Polygon'' False)],
               crs = Some (Inr (Some 2154))\<rparr>"
  by (simp add: read_shp_robust_def no_sidecar_def enc_hint_of_def truthy_strs_def demo_reader_def)

lemma demo_ingest_b:
  "ingest_one all_ok demo_reader no_sidecar demo_stem ''/d'' ''/d/b.shp'' w
     = (Inl (Exn ''not recognized as a supported file format''),
        w\<lparr>logs := logs w @ [FileStart ''/d/b.shp'']\<rparr>)"
  by (simp add: ingest_one_def demo_read_b and_then_def log_event_def raise_def)

lemma demo_ingest_c:
  "ingest_one all_ok demo_reader no_sidecar demo_stem ''/d'' ''/d/c.shp'' w
     = (Inl (Exn (''GeoDataFrame does not support setting the geometry column where ''
                  @ ''the column name is shared by multiple columns.'')),
        w\<lparr>logs := logs w @ [FileStart ''/d/c.shp'']\<rparr>)"
  by (simp add: ingest_one_def demo_read_c gdf_empty_def detect_srid_def demo_cols_c
        rename_geometry_def set_geometry_def raise_def act_defs Let_def)

lemma demo_ingest_a:
  "ingest_one all_ok demo_reader no_sidecar demo_stem ''/d'' ''/d/a.shp'' w
     = (Inr (),
        w\<lparr>db := (),
          sent := sent w @
            [CreateSchema ''public'',
             WriteTable ''public'' ''a''
               \<lparr>columns = [''id'', ''geom''], geometry = [Some (Geometry ''Polygon'' False)],
                  crs = Some (Inr (Some 2154))\<rparr>
               ''replace'' ''geom'' (GeometryT ''POLYGON'' (Some 2154) 2) (Some 5000),
             SelectColumns ''public'' ''a'', CreateIndex ''public'' ''a'',
             AddIdColumn ''public'' ''a'', AddPrimaryKey ''public'' ''a'',
             Analyze ''public'' ''a'', EnableRLS ''public'' ''a'',
             SelectPolicy ''public'' ''a'' ''read_a_anon'',
             CreatePolicy ''read_a_anon'' ''public'' ''a''],
          logs := logs w @ [FileStart ''/d/a.shp'',
                            TableInfo ''public'' ''a'' ''POLYGON'' (Some 2154) False]\<rparr>)"
  by (simp add: ingest_one_def demo_read_a gdf_empty_def detect_srid_def demo_cols
        rename_geometry_def set_geometry_def has_z_any_def demo_table to_postgis_def demo_type
        create_views_and_policies_def CREATE_GEOJSON_VIEW_def CREATE_REPROJECTED_VIEW_4326_def
        APPLY_RLS_AND_GRANT_def policy_name_def PG_SCHEMA_def IF_EXISTS_def CHUNKSIZE_def
        all_ok_def act_defs Let_def)

lemma demo_loop:
  "batch_loop (ingest_one all_ok demo_reader no_sidecar demo_stem ''/d'')
          [''/d/b.shp'', ''/d/c.shp'', ''/d/a.shp''] [] (fresh ())
     = ([(''/d/b.shp'', ''not recognized as a supported file format''),
         (''/d/c.shp'', ''GeoDataFrame does not support setting the geometry column where ''
                        @ ''the column name is shared by multiple columns.'')],
        \<lparr>db = (),
         sent =
            [CreateSchema ''public'',
             WriteTable ''public'' ''a''
               \<lparr>columns = [''id'', ''geom''], geometry = [Some (Geometry ''Polygon'' False)],
                  crs = Some (Inr (Some 2154))\<rparr>
               ''replace'' ''geom'' (GeometryT ''POLYGON'' (Some 2154) 2) (Some 5000),
             SelectColumns ''public'' ''a'', CreateIndex ''public'' ''a'',
             AddIdColumn ''public'' ''a'', AddPrimaryKey ''public'' ''a'',
             Analyze ''public'' ''a'', EnableRLS ''public'' ''a'',
             SelectPolicy ''public'' ''a'' ''read_a_anon'',
             CreatePolicy ''read_a_anon'' ''public'' ''a''],
         logs = [FileStart ''/d/b.shp'',
                 FileError ''/d/b.shp'' ''not recognized as a supported file format'',
                 FileStart ''/d/c.shp'',
                 FileError ''/d/c.shp''
                   (''GeoDataFrame does not support setting the geometry column where ''
                    @ ''the column name is shared by multiple columns.''),
                 FileStart ''/d/a.shp'',
                 TableInfo ''public'' ''a'' ''POLYGON'' (Some 2154) False]\<rparr>)"
  by (simp add: demo_ingest_a demo_ingest_b demo_ingest_c fresh_def)

theorem C8_batch_errors_recorded_witness:
  "fst (batch_run (ingest_one all_ok demo_reader no_sidecar demo_stem ''/d'')
          [''/d/b.shp'', ''/d/c.shp'', ''/d/a.shp''] (fresh ()))
     = Inr (Some [(''/d/b.shp'', ''not recognized as a supported file format''),
                  (''/d/c.shp'', ''GeoDataFrame does not support setting the geometry column where ''
                                 @ ''the column name is shared by multiple columns.'')])
   \<and> filter is_start (logs (snd (batch_loop (ingest_one all_ok demo_reader no_sidecar demo_stem ''/d'')
          [''/d/b.shp'', ''/d/c.shp'', ''/d/a.shp''] [] (fresh ()))))
     = [FileStart ''/d/b.shp'', FileStart ''/d/c.shp'', FileStart ''/d/a.shp'']
   \<and> filter is_failure (logs (snd (batch_loop (ingest_one all_ok demo_reader no_sidecar demo_stem ''/d'')
          [''/d/b.shp'', ''/d/c.shp'', ''/d/a.shp''] [] (fresh ()))))
     = [FileError ''/d/b.shp'' ''not recognized as a supported file format'',
        FileError ''/d/c.shp''
          (''GeoDataFrame does not support setting the geometry column where ''
           @ ''the column name is shared by multiple columns.'')]
   \<and> Analyze ''public'' ''a'' \<in> set
        (sent (snd (batch_loop (ingest_one all_ok demo_reader no_sidecar demo_stem ''/d'')
          [''/d/b.shp'', ''/d/c.shp'', ''/d/a.shp''] [] (fresh ()))))"
proof -
  note T = C8_batch_errors_recorded[where body = "ingest_one all_ok demo_reader no_sidecar demo_stem ''/d''"
          and ex = all_ok and rd = demo_reader and cpg_of = no_sidecar and rel_stem = demo_stem
          and root = "''/d''" and files = "[''/d/b.shp'', ''/d/c.shp'', ''/d/a.shp'']"
          and w = "fresh ()"]
  have e: "fst (batch_loop (ingest_one all_ok demo_reader no_sidecar demo_stem ''/d'')
          [''/d/b.shp'', ''/d/c.shp'', ''/d/a.shp''] [] (fresh ()))
     = [(''/d/b.shp'', ''not recognized as a supported file format''),
        (''/d/c.shp'', ''GeoDataFrame does not support setting the geometry column where ''
                       @ ''the column name is shared by multiple columns.'')]"
    by (simp only: demo_loop fst_conv)
  have a: "fst (batch_run (ingest_one all_ok demo_reader no_sidecar demo_stem ''/d'')
          [''/d/b.shp'', ''/d/c.shp'', ''/d/a.shp''] (fresh ()))
     = Inr (Some [(''/d/b.shp'', ''not recognized as a supported file format''),
                  (''/d/c.shp'', ''GeoDataFrame does not support setting the geometry column where ''
                                 @ ''the column name is shared by multiple columns.'')])"
    using T[THEN conjunct2, THEN conjunct2, THEN conjunct1] unfolding e by simp
  have b: "filter is_start (logs (snd (batch_loop (ingest_one all_ok demo_reader no_sidecar demo_stem ''/d'')
          [''/d/b.shp'', ''/d/c.shp'', ''/d/a.shp''] [] (fresh ()))))
     = [FileStart ''/d/b.shp'', FileStart ''/d/c.shp'', FileStart ''/d/a.shp'']"
    using T[THEN conjunct2, THEN conjunct2, THEN conjunct2, THEN conjunct1] by (simp add: fresh_def)
  have c: "filter is_failure (logs (snd (batch_loop (ingest_one all_ok demo_reader no_sidecar demo_stem ''/d'')
          [''/d/b.shp'', ''/d/c.shp'', ''/d/a.shp''] [] (fresh ()))))
     = [FileError ''/d/b.shp'' ''not recognized as a supported file format'',
        FileError ''/d/c.shp''
          (''GeoDataFrame does not support setting the geometry column where ''
           @ ''the column name is shared by multiple columns.'')]"
    using T[THEN conjunct2, THEN conjunct2, THEN conjunct2, THEN conjunct2] unfolding e
    by (simp add: fresh_def)
  have d: "Analyze ''public'' ''a'' \<in> set
        (sent (snd (batch_loop (ingest_one all_ok demo_reader no_sidecar demo_stem ''/d'')
          [''/d/b.shp'', ''/d/c.shp'', ''/d/a.shp''] [] (fresh ()))))"
    unfolding demo_loop by simp
  from a b c d show ?thesis by blast
qed

end
